theory Spec2Isabelle
  imports Complex_Main "HOL-Library.Multiset"
begin

section \<open>The training pipeline of sklearn\_classifier\_dask\<close>

text \<open>
  The repository's algorithmic content is one function, \<^verbatim>\<open>train_model\<close> in
  \<^verbatim>\<open>sklearn_classifier_dask/sklearn_classifier_dask.py\<close>. It orchestrates external
  collaborators (mlrun, dask, dask\_ml, joblib, yellowbrick, matplotlib). The embedding
  keeps the function's own control flow, its raises and the order of its calls; the
  collaborators are a record of functions (\<open>env\<close>) whose results are either a Python
  exception or a value. Cell values \<open>'v\<close> and opaque Python objects \<open>'o\<close> (client,
  data item, fitted encoder, fitted scaler, estimator class, estimator) are type
  parameters: the pipeline only moves them around.
\<close>

subsection \<open>Exceptions\<close>

datatype py_error =
    ValueError string
  | KeyError string
  | PyException string
  | ImportError string
  | LibraryError string

subsection \<open>Distributed frames\<close>

text \<open>
  A frame is held column-wise, as pandas and dask hold it: each column has a name, a
  dtype (the numpy dtype name, as \<^verbatim>\<open>select_dtypes\<close> compares it) and its cells.
  A missing value (NaN, None) is the cell \<open>None\<close>. Column names are taken to be
  distinct, and every column has as many cells as the frame has index labels.
\<close>

record 'v column =
  name :: string
  dtype :: string
  cells :: "'v option list"

record 'v frame =
  columns :: "'v column list"
  index :: "nat list"

type_synonym 'v matrix = "'v option list list"

definition nrows :: "'v frame \<Rightarrow> nat" where
  "nrows df = length (index df)"

definition well_formed :: "'v frame \<Rightarrow> bool" where
  "well_formed df \<longleftrightarrow>
     distinct (map name (columns df)) \<and>
     list_all (\<lambda>c. length (cells c) = nrows df) (columns df)"

text \<open>Line 78: the dtype names the pipeline keeps.\<close>

definition numerics :: "string list" where
  "numerics = [''int16'', ''int32'', ''int64'', ''float16'', ''float32'', ''float64'']"

text \<open>Line 79, \<^verbatim>\<open>df.select_dtypes(include=numerics)\<close>: the columns whose dtype is listed,
  in their order.\<close>

definition select_dtypes :: "string list \<Rightarrow> 'v frame \<Rightarrow> 'v frame" where
  "select_dtypes include df =
     df\<lparr>columns := filter (\<lambda>c. dtype c \<in> set include) (columns df)\<rparr>"

text \<open>Line 82, \<^verbatim>\<open>df.isna().any().any().compute()\<close>.\<close>

definition isna_any :: "'v frame \<Rightarrow> bool" where
  "isna_any df = list_ex (\<lambda>c. list_ex (\<lambda>x. x = None) (cells c)) (columns df)"

text \<open>Line 86, \<^verbatim>\<open>df.columns\<close>.\<close>

definition header_of :: "'v frame \<Rightarrow> string list" where
  "header_of df = map name (columns df)"

text \<open>
  Line 88, \<^verbatim>\<open>df.sample(frac=sample).reset_index(drop=True)\<close>. The call passes no
  random state, so the rows taken are whatever the library's generator draws in this
  run: \<open>rng fraction n\<close> is that draw, the row positions (all below \<open>n\<close>) in the order
  they come out. The rows keep their index labels through \<^verbatim>\<open>sample\<close>;
  \<^verbatim>\<open>reset_index(drop=True)\<close> renumbers them.
\<close>

definition take_rows :: "nat list \<Rightarrow> 'v frame \<Rightarrow> 'v frame" where
  "take_rows draw df =
     \<lparr>columns = map (\<lambda>c. c\<lparr>cells := map (\<lambda>i. cells c ! i) draw\<rparr>) (columns df),
      index = map (\<lambda>i. index df ! i) draw\<rparr>"

definition reset_index :: "'v frame \<Rightarrow> 'v frame" where
  "reset_index df = df\<lparr>index := [0..<nrows df]\<rparr>"

definition sample_reset :: "(real \<Rightarrow> nat \<Rightarrow> nat list) \<Rightarrow> real \<Rightarrow> 'v frame \<Rightarrow> 'v frame" where
  "sample_reset rng fraction df = reset_index (take_rows (rng fraction (nrows df)) df)"

text \<open>\<^verbatim>\<open>df[label_column]\<close>: a missing column raises KeyError.\<close>

definition getitem :: "'v frame \<Rightarrow> string \<Rightarrow> py_error + 'v option list" where
  "getitem df key =
     (case find (\<lambda>c. name c = key) (columns df) of
        None \<Rightarrow> Inl (KeyError key)
      | Some c \<Rightarrow> Inr (cells c))"

text \<open>\<^verbatim>\<open>df.drop(label_column, axis=1)\<close>: a missing column raises KeyError.\<close>

definition drop_column :: "string \<Rightarrow> 'v frame \<Rightarrow> py_error + 'v frame" where
  "drop_column key df =
     (if key \<in> set (header_of df)
      then Inr (df\<lparr>columns := filter (\<lambda>c. name c \<noteq> key) (columns df)\<rparr>)
      else Inl (KeyError key))"

text \<open>\<^verbatim>\<open>to_dask_array(lengths=True)\<close>: the rows of the frame, without names or index.\<close>

definition row_at :: "'v frame \<Rightarrow> nat \<Rightarrow> 'v option list" where
  "row_at df i = map (\<lambda>c. cells c ! i) (columns df)"

definition to_dask_array :: "'v frame \<Rightarrow> 'v matrix" where
  "to_dask_array df = map (row_at df) [0..<nrows df]"

text \<open>Line 94, \<^verbatim>\<open>drop_duplicates()\<close>: the first occurrence of each value, in order.\<close>

fun drop_duplicates :: "'a list \<Rightarrow> 'a list" where
  "drop_duplicates [] = []"
| "drop_duplicates (x # xs) = x # drop_duplicates (filter (\<lambda>y. y \<noteq> x) xs)"

text \<open>Line 171, \<^verbatim>\<open>df_header.delete(df_header.get_loc(label_column))\<close>.\<close>

definition header_without :: "string \<Rightarrow> string list \<Rightarrow> py_error + string list" where
  "header_without key hdr =
     (if key \<in> set hdr then Inr (remove1 key hdr) else Inl (KeyError key))"

text \<open>Line 225, \<^verbatim>\<open>np.column_stack((X_test, y_test))\<close>: the label becomes the last column;
  arrays of different lengths raise ValueError.\<close>

definition column_stack :: "'v matrix \<Rightarrow> 'v option list \<Rightarrow> py_error + 'v matrix" where
  "column_stack X y =
     (if length X = length y then Inr (map (\<lambda>(r, l). r @ [l]) (zip X y))
      else Inl (ValueError ''all the input array dimensions must match''))"

text \<open>Line 228, \<^verbatim>\<open>pd.DataFrame(df_to_save, columns=df_header)\<close>: the header must be as wide
  as the rows.\<close>

record 'v table =
  table_columns :: "string list"
  table_rows :: "'v matrix"

definition DataFrame :: "'v matrix \<Rightarrow> string list \<Rightarrow> py_error + 'v table" where
  "DataFrame rows hdr =
     (if list_all (\<lambda>r. length r = length hdr) rows
      then Inr \<lparr>table_columns = hdr, table_rows = rows\<rparr>
      else Inl (ValueError ''Shape of passed values does not match the columns''))"

subsection \<open>Values that cross the boundary to the collaborators\<close>

datatype report_kind = ROCAUC | ClassificationReport | ConfusionMatrix | FeatureImportances

text \<open>\<^verbatim>\<open>report.__name__\<close>.\<close>

fun report_name :: "report_kind \<Rightarrow> string" where
  "report_name ROCAUC = ''ROCAUC''"
| "report_name ClassificationReport = ''ClassificationReport''"
| "report_name ConfusionMatrix = ''ConfusionMatrix''"
| "report_name FeatureImportances = ''FeatureImportances''"

text \<open>The keys of \<^verbatim>\<open>extra_data_dict\<close>: \<^verbatim>\<open>str(report)\<close>, the class's repr, in the loop
  (line 143) and a plain name for the last report (line 181).\<close>

datatype extra_key = ClassRepr report_kind | PlainKey string

text \<open>Keyword arguments: a dict from names to Python values.\<close>

datatype ('v, 'o) pyval = Features "'v matrix" | Labels "'v option list" | Object 'o

type_synonym ('v, 'o) kwargs = "string \<rightharpoonup> ('v, 'o) pyval"

text \<open>The dict \<^verbatim>\<open>gen_sklearn_model\<close> returns, with its keys \<^verbatim>\<open>CLASS\<close>, \<^verbatim>\<open>FIT\<close> and
  \<^verbatim>\<open>META\<close>; a key that is absent is \<open>None\<close>.\<close>

record ('v, 'o) model_config =
  CLASS :: "('v, 'o) kwargs option"
  FIT :: "('v, 'o) kwargs option"
  META :: "(string \<rightharpoonup> string) option"

text \<open>Subscripting a dict: a missing key raises KeyError.\<close>

definition getkey :: "string \<Rightarrow> 'a option \<Rightarrow> py_error + 'a" where
  "getkey key entry = (case entry of None \<Rightarrow> Inl (KeyError key) | Some x \<Rightarrow> Inr x)"

text \<open>What the pipeline reads from a scored visualizer: \<^verbatim>\<open>viz.roc_auc\<close> and
  \<^verbatim>\<open>viz.scores_\<close> (dicts; the second, \<open>scores\<close> here, is iterated, so it is kept in order).\<close>

record 'v viz =
  roc_auc :: "string \<rightharpoonup> 'v"
  scores :: "(string \<times> (string \<times> 'v) list) list"

type_synonym 'v split = "'v matrix \<times> 'v matrix \<times> 'v option list \<times> 'v option list"

type_synonym plot = "string \<times> report_kind list"

subsection \<open>The function's parameters\<close>

record 'o params =
  dataset :: 'o
  model_pkg_class :: string
  label_column :: string
  train_validation_size :: real
  sample :: real
  models_dest :: string
  test_set_key :: string
  plots_dest :: string
  dask_function :: "string option"
  dask_client :: "'o option"
  file_ext :: string
  random_state :: int

text \<open>Lines 29--43: the defaults of the signature.\<close>

definition default_params :: "'o \<Rightarrow> string \<Rightarrow> 'o params" where
  "default_params ds cls =
     \<lparr>dataset = ds, model_pkg_class = cls, label_column = ''label'',
      train_validation_size = 0.75, sample = 1.0, models_dest = ''models'',
      test_set_key = ''test_set'', plots_dest = ''plots'', dask_function = None,
      dask_client = None, file_ext = ''parquet'', random_state = 42\<rparr>"

subsection \<open>The collaborators\<close>

text \<open>
  Every call the function makes into a library or into the mlrun context. A call that
  can raise returns \<open>Inl\<close> of the exception. \<open>viz_init\<close>, \<open>viz_fit\<close> and
  \<open>viz_score\<close> are the constructor, \<^verbatim>\<open>fit\<close> and \<^verbatim>\<open>score\<close> of the yellowbrick
  visualizer of the given kind; \<open>context_parameters\<close> is \<^verbatim>\<open>context.parameters.items()\<close>.
\<close>

record ('v, 'o) env =
  import_function_client :: "string \<Rightarrow> py_error + 'o"
  as_df :: "'o \<Rightarrow> py_error + 'v frame"
  encoder_fit :: "'v option list \<Rightarrow> py_error + 'o"
  encoder_transform :: "'o \<Rightarrow> 'v option list \<Rightarrow> py_error + 'v option list"
  str_of :: "'v option \<Rightarrow> string"
  train_test_split :: "'v matrix \<Rightarrow> 'v option list \<Rightarrow> real \<Rightarrow> int \<Rightarrow> py_error + 'v split"
  scaler_fit :: "'v matrix \<Rightarrow> py_error + 'o"
  scaler_transform :: "'o \<Rightarrow> 'v matrix \<Rightarrow> py_error + 'v matrix"
  context_parameters :: "(string \<times> 'o) list"
  gen_sklearn_model :: "string \<Rightarrow> (string \<times> 'o) list \<Rightarrow> py_error + ('v, 'o) model_config"
  create_class :: "string \<Rightarrow> py_error + 'o"
  construct :: "'o \<Rightarrow> ('v, 'o) kwargs \<Rightarrow> py_error + 'o"
  estimator_fit :: "'o \<Rightarrow> ('v, 'o) kwargs \<Rightarrow> py_error + 'o"
  viz_init :: "report_kind \<Rightarrow> 'o \<Rightarrow> string list \<Rightarrow> string list option \<Rightarrow> py_error + unit"
  viz_fit :: "report_kind \<Rightarrow> 'o \<Rightarrow> 'v matrix \<Rightarrow> 'v option list \<Rightarrow> py_error + unit"
  viz_score :: "report_kind \<Rightarrow> 'o \<Rightarrow> 'v matrix \<Rightarrow> 'v option list \<Rightarrow> py_error + 'v viz"
  artifact_subpath :: "string \<Rightarrow> string"

subsection \<open>Effects: the trace of calls and the mutable state\<close>

text \<open>
  Every call with an effect outside the function is an event, in the order the calls
  are made; a call that can raise records its result. The mutable state the function
  works on is pyplot's current figure (\<open>surface\<close>: the reports drawn on it since it was
  last cleared) and \<^verbatim>\<open>context.results\<close>. The calls into the context (its logger,
  \<^verbatim>\<open>log_artifact\<close>, \<^verbatim>\<open>log_results\<close>, \<^verbatim>\<open>set_label\<close>, \<^verbatim>\<open>log_model\<close>,
  \<^verbatim>\<open>log_dataset\<close>) and into pyplot are recorded and taken to return.
\<close>

datatype ('v, 'o) event =
    LoggerInfo string
  | ImportFunction string "py_error + 'o"
  | AsDf 'o "py_error + 'v frame"
  | EncoderFit "'v option list" "py_error + 'o"
  | EncoderTransform 'o "'v option list" "py_error + 'v option list"
  | TrainTestSplit "'v matrix" "'v option list" real int "py_error + 'v split"
  | ScalerFit "'v matrix" "py_error + 'o"
  | ScalerTransform 'o "'v matrix" "py_error + 'v matrix"
  | GenSklearnModel string "(string \<times> 'o) list" "py_error + ('v, 'o) model_config"
  | CreateClass string "py_error + 'o"
  | Construct 'o "('v, 'o) kwargs" "py_error + 'o"
  | BackendEnter string
  | EstimatorFit 'o "('v, 'o) kwargs" "py_error + 'o"
  | BackendExit
  | PltCla
  | PltClf
  | PltClose
  | VizInit report_kind 'o "string list" "string list option" "py_error + unit"
  | VizFit report_kind "'v matrix" "'v option list" "py_error + unit"
  | VizScore report_kind "'v matrix" "'v option list" "py_error + 'v viz"
  | LogPlot string "report_kind list"
  | LogResults "(string \<times> 'v option) list"
  | SetLabel string string
  | LogModel string 'o string string "(extra_key \<times> plot) list" "string \<rightharpoonup> 'v option"
      "(string \<times> string) list"
  | LogArtifact string 'o string string string
  | LogDataset string "'v table" string "(string \<times> string) list" string

record 'v pystate =
  surface :: "report_kind list"
  results :: "string \<rightharpoonup> 'v option"

text \<open>An action runs from a state and gives the exception or the value, the events it
  emitted, and the state it left.\<close>

type_synonym ('a, 'v, 'o) action =
  "'v pystate \<Rightarrow> (py_error + 'a) \<times> ('v, 'o) event list \<times> 'v pystate"

definition returnA :: "'a \<Rightarrow> ('a, 'v, 'o) action" where
  "returnA x = (\<lambda>s. (Inr x, [], s))"

definition raiseA :: "py_error \<Rightarrow> ('a, 'v, 'o) action" where
  "raiseA e = (\<lambda>s. (Inl e, [], s))"

text \<open>Sequencing: an exception ends the run where it is raised.\<close>

definition bindA :: "('a, 'v, 'o) action \<Rightarrow> ('a \<Rightarrow> ('b, 'v, 'o) action) \<Rightarrow> ('b, 'v, 'o) action" where
  "bindA m f = (\<lambda>s.
     case m s of
       (Inl e, evs, s') \<Rightarrow> (Inl e, evs, s')
     | (Inr x, evs, s') \<Rightarrow> (case f x s' of (r, evs', s'') \<Rightarrow> (r, evs @ evs', s'')))"

text \<open>An operation of the frame or of a dict: no effect, may raise.\<close>

definition liftE :: "py_error + 'a \<Rightarrow> ('a, 'v, 'o) action" where
  "liftE r = (\<lambda>s. (r, [], s))"

text \<open>A call into a collaborator: traced with its result.\<close>

definition extern :: "(py_error + 'a \<Rightarrow> ('v, 'o) event) \<Rightarrow> py_error + 'a \<Rightarrow> ('a, 'v, 'o) action" where
  "extern mk r = (\<lambda>s. (r, [mk r], s))"

definition emit :: "('v, 'o) event \<Rightarrow> (unit, 'v, 'o) action" where
  "emit ev = (\<lambda>s. (Inr (), [ev], s))"

text \<open>\<^verbatim>\<open>plt.cla()\<close>, \<^verbatim>\<open>plt.clf()\<close>, \<^verbatim>\<open>plt.close()\<close>: each leaves nothing drawn on the
  current figure.\<close>

definition plt_cla :: "(unit, 'v, 'o) action" where
  "plt_cla = (\<lambda>s. (Inr (), [PltCla], s\<lparr>surface := []\<rparr>))"

definition plt_clf :: "(unit, 'v, 'o) action" where
  "plt_clf = (\<lambda>s. (Inr (), [PltClf], s\<lparr>surface := []\<rparr>))"

definition plt_close :: "(unit, 'v, 'o) action" where
  "plt_close = (\<lambda>s. (Inr (), [PltClose], s\<lparr>surface := []\<rparr>))"

text \<open>Lines 128--130 and 184--186.\<close>

definition clear_output :: "(unit, 'v, 'o) action" where
  "clear_output = bindA plt_cla (\<lambda>_. bindA plt_clf (\<lambda>_. plt_close))"

text \<open>A scored visualizer has drawn on the current figure (no axes are passed to it,
  so it takes pyplot's).\<close>

definition draw :: "report_kind \<Rightarrow> (unit, 'v, 'o) action" where
  "draw kind = (\<lambda>s. (Inr (), [], s\<lparr>surface := surface s @ [kind]\<rparr>))"

text \<open>\<^verbatim>\<open>context.log_artifact(PlotArtifact(name, body=viz.fig, title=name), db_key=False)\<close>:
  the body is the current figure as it is when the plot is logged.\<close>

definition log_plot :: "string \<Rightarrow> (plot, 'v, 'o) action" where
  "log_plot key = (\<lambda>s. (Inr (key, surface s), [LogPlot key (surface s)], s))"

text \<open>\<^verbatim>\<open>context.log_results(d)\<close> updates \<^verbatim>\<open>context.results\<close>.\<close>

definition log_results :: "(string \<times> 'v option) list \<Rightarrow> (unit, 'v, 'o) action" where
  "log_results kv = (\<lambda>s. (Inr (), [LogResults kv], s\<lparr>results := results s ++ map_of kv\<rparr>))"

definition get_results :: "(string \<rightharpoonup> 'v option, 'v, 'o) action" where
  "get_results = (\<lambda>s. (Inr (results s), [], s))"

text \<open>\<^verbatim>\<open>with joblib.parallel_backend(name):\<close> the context is left on every exit of the body,
  also when the body raises.\<close>

definition parallel_backend :: "string \<Rightarrow> ('a, 'v, 'o) action \<Rightarrow> ('a, 'v, 'o) action" where
  "parallel_backend backend body = (\<lambda>s.
     case body s of (r, evs, s') \<Rightarrow> (r, BackendEnter backend # evs @ [BackendExit], s'))"

subsection \<open>\<^verbatim>\<open>train_model\<close>, stage by stage\<close>

text \<open>Lines 64--70: the dask client. A reference that is None or empty is falsy; the
  client object, when given, is truthy. The function does not use the client afterwards.\<close>

definition setup_client :: "('v, 'o) env \<Rightarrow> string option \<Rightarrow> 'o option \<Rightarrow> ('o, 'v, 'o) action" where
  "setup_client env dask_fn client =
     (case dask_fn of
        Some (c # cs) \<Rightarrow> extern (ImportFunction (c # cs)) (import_function_client env (c # cs))
      | _ \<Rightarrow> (case client of
                Some cl \<Rightarrow> returnA cl
              | None \<Rightarrow> raiseA (ValueError ''dask client was not provided'')))"

text \<open>Lines 72--86: read the frame, keep the numeric columns, refuse missing values,
  save the column names.\<close>

definition read_data :: "('v, 'o) env \<Rightarrow> 'o params \<Rightarrow> ('v frame \<times> string list, 'v, 'o) action" where
  "read_data env p =
     bindA (emit (LoggerInfo ''Read Data'')) (\<lambda>_.
     bindA (extern (AsDf (dataset p)) (as_df env (dataset p))) (\<lambda>df.
     bindA (emit (LoggerInfo ''Prep Data'')) (\<lambda>_.
     let df = select_dtypes numerics df in
     if isna_any df then raiseA (PyException ''NAs valus found'')
     else returnA (df, header_of df))))"

text \<open>Lines 88--95: sample, fit the label encoder, take the features and the encoded
  labels, list the classes.\<close>

definition encode_features ::
  "('v, 'o) env \<Rightarrow> (real \<Rightarrow> nat \<Rightarrow> nat list) \<Rightarrow> 'o params \<Rightarrow> 'v frame \<Rightarrow>
   ('o \<times> 'v matrix \<times> 'v option list \<times> string list, 'v, 'o) action" where
  "encode_features env rng p df0 =
     (let df = sample_reset rng (sample p) df0 in
      bindA (liftE (getitem df (label_column p))) (\<lambda>labels.
      bindA (extern (EncoderFit labels) (encoder_fit env labels)) (\<lambda>encoder.
      bindA (liftE (drop_column (label_column p) df)) (\<lambda>features.
      let X = to_dask_array features in
      bindA (liftE (getitem df (label_column p))) (\<lambda>labels.
      bindA (extern (EncoderTransform encoder labels) (encoder_transform env encoder labels)) (\<lambda>y.
      bindA (liftE (getitem df (label_column p))) (\<lambda>labels.
      returnA (encoder, X, y, map (str_of env) (drop_duplicates labels)))))))))"

text \<open>Lines 97--105: split with the seed, fit the scaler on the train features, transform
  both partitions.\<close>

definition split_and_scale ::
  "('v, 'o) env \<Rightarrow> 'o params \<Rightarrow> 'v matrix \<Rightarrow> 'v option list \<Rightarrow>
   ('v split \<times> 'o \<times> 'v matrix \<times> 'v matrix, 'v, 'o) action" where
  "split_and_scale env p X y =
     bindA (emit (LoggerInfo ''Split and Train'')) (\<lambda>_.
     bindA (extern (TrainTestSplit X y (train_validation_size p) (random_state p))
              (train_test_split env X y (train_validation_size p) (random_state p))) (\<lambda>parts.
     let X_train = fst parts; X_test = fst (snd parts) in
     bindA (extern (ScalerFit X_train) (scaler_fit env X_train)) (\<lambda>scaler.
     bindA (extern (ScalerTransform scaler X_train) (scaler_transform env scaler X_train))
       (\<lambda>X_train_transformed.
     bindA (extern (ScalerTransform scaler X_test) (scaler_transform env scaler X_test))
       (\<lambda>X_test_transformed.
     returnA (parts, scaler, X_train_transformed, X_test_transformed))))))"

text \<open>Lines 107--119: resolve the descriptor, put the training data into the fit
  arguments, create the class, construct the estimator, fit it under the dask backend.\<close>

definition build_and_fit ::
  "('v, 'o) env \<Rightarrow> 'o params \<Rightarrow> 'v matrix \<Rightarrow> 'v option list \<Rightarrow> ('o, 'v, 'o) action" where
  "build_and_fit env p X_train_transformed y_train =
     bindA (extern (GenSklearnModel (model_pkg_class p) (context_parameters env))
              (gen_sklearn_model env (model_pkg_class p) (context_parameters env))) (\<lambda>config.
     bindA (liftE (getkey ''FIT'' (FIT config))) (\<lambda>fit_args.
     let model_config = config\<lparr>FIT :=
           Some (fit_args(''X'' \<mapsto> Features X_train_transformed, ''y'' \<mapsto> Labels y_train))\<rparr> in
     bindA (liftE (getkey ''META'' (META model_config))) (\<lambda>meta.
     bindA (liftE (getkey ''class'' (meta ''class''))) (\<lambda>class_name.
     bindA (extern (CreateClass class_name) (create_class env class_name)) (\<lambda>ClassifierClass.
     bindA (liftE (getkey ''CLASS'' (CLASS model_config))) (\<lambda>class_args.
     bindA (extern (Construct ClassifierClass class_args) (construct env ClassifierClass class_args))
       (\<lambda>model.
     parallel_backend ''dask''
       (bindA (liftE (getkey ''FIT'' (FIT model_config))) (\<lambda>fit_kwargs.
        extern (EstimatorFit model fit_kwargs) (estimator_fit env model fit_kwargs))))))))))"

text \<open>Lines 152--161: one result per score name and class.\<close>

fun log_class_scores ::
  "string \<Rightarrow> (string \<times> 'v) list \<Rightarrow> (string \<times> 'v) list \<Rightarrow> (unit, 'v, 'o) action" where
  "log_class_scores score_name by_class [] = returnA ()"
| "log_class_scores score_name by_class ((score_class, _) # rest) =
     bindA (log_results [(score_name @ ''-'' @ score_class, map_of by_class score_class)])
       (\<lambda>_. log_class_scores score_name by_class rest)"

fun log_scores :: "(string \<times> (string \<times> 'v) list) list \<Rightarrow> (unit, 'v, 'o) action" where
  "log_scores [] = returnA ()"
| "log_scores ((score_name, by_class) # rest) =
     bindA (log_class_scores score_name by_class by_class) (\<lambda>_. log_scores rest)"

text \<open>Lines 126--161: the body of the loop, for one report class.\<close>

definition make_report ::
  "('v, 'o) env \<Rightarrow> 'o \<Rightarrow> string list \<Rightarrow> 'v matrix \<Rightarrow> 'v option list \<Rightarrow> 'v matrix \<Rightarrow>
   'v option list \<Rightarrow> report_kind \<Rightarrow> (extra_key \<times> plot, 'v, 'o) action" where
  "make_report env model classes X_train_transformed y_train X_test_transformed y_test report =
     bindA clear_output (\<lambda>_.
     bindA (extern (VizInit report model classes None) (viz_init env report model classes None)) (\<lambda>_.
     bindA (extern (VizFit report X_train_transformed y_train)
              (viz_fit env report model X_train_transformed y_train)) (\<lambda>_.
     bindA (extern (VizScore report X_test_transformed y_test)
              (viz_score env report model X_test_transformed y_test)) (\<lambda>viz.
     bindA (draw report) (\<lambda>_.
     bindA (log_plot (report_name report)) (\<lambda>plot.
     bindA (if report_name report = ''ROCAUC''
            then log_results [(''micro'', roc_auc viz ''micro''), (''macro'', roc_auc viz ''macro'')]
            else if report_name report = ''ClassificationReport''
            then log_scores (scores viz)
            else returnA ()) (\<lambda>_.
     returnA (ClassRepr report, plot))))))))"

text \<open>Line 124: the \<^verbatim>\<open>for\<close> loop, collecting \<^verbatim>\<open>extra_data_dict\<close>.\<close>

fun for_reports ::
  "(report_kind \<Rightarrow> (extra_key \<times> plot, 'v, 'o) action) \<Rightarrow> report_kind list \<Rightarrow>
   (extra_key \<times> plot) list \<Rightarrow> ((extra_key \<times> plot) list, 'v, 'o) action" where
  "for_reports body [] extra = returnA extra"
| "for_reports body (report # rest) extra =
     bindA (body report) (\<lambda>entry. for_reports body rest (extra @ [entry]))"

text \<open>Lines 165--186: the feature importances, then the final clear.\<close>

definition feature_importances ::
  "('v, 'o) env \<Rightarrow> 'o params \<Rightarrow> 'o \<Rightarrow> string list \<Rightarrow> string list \<Rightarrow> 'v matrix \<Rightarrow>
   'v option list \<Rightarrow> 'v matrix \<Rightarrow> 'v option list \<Rightarrow> (extra_key \<times> plot) list \<Rightarrow>
   ((extra_key \<times> plot) list, 'v, 'o) action" where
  "feature_importances env p model classes df_header X_train_transformed y_train
       X_test_transformed y_test extra =
     bindA (liftE (header_without (label_column p) df_header)) (\<lambda>labels.
     bindA (extern (VizInit FeatureImportances model classes (Some labels))
              (viz_init env FeatureImportances model classes (Some labels))) (\<lambda>_.
     bindA (extern (VizFit FeatureImportances X_train_transformed y_train)
              (viz_fit env FeatureImportances model X_train_transformed y_train)) (\<lambda>_.
     bindA (extern (VizScore FeatureImportances X_test_transformed y_test)
              (viz_score env FeatureImportances model X_test_transformed y_test)) (\<lambda>viz.
     bindA (draw FeatureImportances) (\<lambda>_.
     bindA (log_plot ''FeatureImportances'') (\<lambda>plot.
     bindA clear_output (\<lambda>_.
     returnA (extra @ [(PlainKey ''FeatureImportances'', plot)]))))))))"

text \<open>Lines 188--235: the model, the scaler, the encoder and the held-out data.\<close>

definition log_outputs ::
  "('v, 'o) env \<Rightarrow> 'o params \<Rightarrow> 'o \<Rightarrow> 'o \<Rightarrow> 'o \<Rightarrow> 'v matrix \<Rightarrow> 'v option list \<Rightarrow>
   string list \<Rightarrow> (extra_key \<times> plot) list \<Rightarrow> (unit, 'v, 'o) action" where
  "log_outputs env p model scaler encoder X_test y_test df_header extra =
     bindA (emit (LoggerInfo ''Log artifacts'')) (\<lambda>_.
     let artifact_path = artifact_subpath env (models_dest p) in
     bindA (emit (SetLabel ''class'' (model_pkg_class p))) (\<lambda>_.
     bindA get_results (\<lambda>metrics.
     bindA (emit (LogModel ''model'' model artifact_path ''model.pkl'' extra metrics
                    [(''class'', model_pkg_class p)])) (\<lambda>_.
     bindA (emit (LogArtifact ''standard_scaler'' scaler artifact_path ''scaler.gz''
                    ''standard_scaler'')) (\<lambda>_.
     bindA (emit (LogArtifact ''label_encoder'' encoder artifact_path ''encoder.gz''
                    ''label_encoder'')) (\<lambda>_.
     bindA (liftE (column_stack X_test y_test)) (\<lambda>df_to_save.
     bindA (liftE (DataFrame df_to_save df_header)) (\<lambda>held_out.
     bindA (emit (LogDataset (test_set_key p) held_out (file_ext p)
                    [(''data-type'', ''held-out'')] (artifact_subpath env ''data''))) (\<lambda>_.
     emit (LoggerInfo ''Done!''))))))))))"

text \<open>Lines 29--235. \<open>rng\<close> is the draw of the unseeded row sampler in this run.\<close>

definition train_model ::
  "('v, 'o) env \<Rightarrow> (real \<Rightarrow> nat \<Rightarrow> nat list) \<Rightarrow> 'o params \<Rightarrow> (unit, 'v, 'o) action" where
  "train_model env rng p =
     bindA (setup_client env (dask_function p) (dask_client p)) (\<lambda>client.
     bindA (read_data env p) (\<lambda>(df, df_header).
     bindA (encode_features env rng p df) (\<lambda>(encoder, X, y, classes).
     bindA (split_and_scale env p X y)
       (\<lambda>((X_train, X_test, y_train, y_test), scaler, X_train_transformed, X_test_transformed).
     bindA (build_and_fit env p X_train_transformed y_train) (\<lambda>model.
     bindA (emit (LoggerInfo ''Evaluate'')) (\<lambda>_.
     bindA (for_reports
              (make_report env model classes X_train_transformed y_train X_test_transformed y_test)
              [ROCAUC, ClassificationReport, ConfusionMatrix] []) (\<lambda>extra.
     bindA (feature_importances env p model classes df_header X_train_transformed y_train
              X_test_transformed y_test extra) (\<lambda>extra.
     log_outputs env p model scaler encoder X_test y_test df_header extra))))))))"

subsection \<open>Stand-in collaborators and small datasets\<close>

text \<open>
  Concrete collaborators on which the function can be run: cells are numbers or
  strings, and every library call does the simplest thing its contract allows. The
  splitter puts the first \<open>\<lfloor>train_size \<sdot> n\<rfloor>\<close> rows into the train partition (one block of
  rows, no shuffling); the scaler halves every number; the label encoder is given labels
  that are already the codes 0 and 1 and leaves them as they are.
\<close>

datatype scalar = Num real | Str string

datatype demo_obj =
    DataItem "scalar frame"
  | Client string
  | Encoder "scalar option list"
  | Scaler "scalar matrix"
  | Class string
  | Estimator string bool

definition demo_split :: "scalar matrix \<Rightarrow> scalar option list \<Rightarrow> real \<Rightarrow> int \<Rightarrow> py_error + scalar split" where
  "demo_split X y train_size seed =
     (let k = nat \<lfloor>train_size * real (length X)\<rfloor>
      in Inr (take k X, drop k X, take k y, drop k y))"

definition halve :: "scalar option \<Rightarrow> scalar option" where
  "halve x = (case x of Some (Num r) \<Rightarrow> Some (Num (r / 2)) | _ \<Rightarrow> x)"

definition demo_viz :: "scalar viz" where
  "demo_viz = \<lparr>roc_auc = [''micro'' \<mapsto> Num 1, ''macro'' \<mapsto> Num 1],
               scores = [(''precision'', [(''0'', Num 1), (''1'', Num 1)])]\<rparr>"

definition demo_str :: "scalar option \<Rightarrow> string" where
  "demo_str x = (case x of
      None \<Rightarrow> ''nan''
    | Some (Str s) \<Rightarrow> s
    | Some (Num r) \<Rightarrow> (if r = 0 then ''0'' else if r = 1 then ''1'' else ''other''))"

definition demo_env :: "(scalar, demo_obj) env" where
  "demo_env =
     \<lparr>import_function_client = (\<lambda>url. Inr (Client url)),
      as_df = (\<lambda>item. case item of DataItem df \<Rightarrow> Inr df
                                  | _ \<Rightarrow> Inl (LibraryError ''not a data item'')),
      encoder_fit = (\<lambda>labels. Inr (Encoder (drop_duplicates labels))),
      encoder_transform = (\<lambda>encoder labels. Inr labels),
      str_of = demo_str,
      train_test_split = demo_split,
      scaler_fit = (\<lambda>X. Inr (Scaler X)),
      scaler_transform = (\<lambda>scaler X. Inr (map (map halve) X)),
      context_parameters = [],
      gen_sklearn_model = (\<lambda>cls items.
         Inr \<lparr>CLASS = Some Map.empty, FIT = Some Map.empty, META = Some [''class'' \<mapsto> cls]\<rparr>),
      create_class = (\<lambda>cls. Inr (Class cls)),
      construct = (\<lambda>cls args. Inr (case cls of Class n \<Rightarrow> Estimator n False | other \<Rightarrow> other)),
      estimator_fit = (\<lambda>model args.
         Inr (case model of Estimator n fitted \<Rightarrow> Estimator n True | other \<Rightarrow> other)),
      viz_init = (\<lambda>kind model classes labels. Inr ()),
      viz_fit = (\<lambda>kind model X y. Inr ()),
      viz_score = (\<lambda>kind model X y. Inr demo_viz),
      artifact_subpath = (\<lambda>sub. ''artifacts/'' @ sub)\<rparr>"

text \<open>A dataset with the columns f1 and f2 (float64) and a label column of the given
  dtype and cells.\<close>

definition float_cells :: "nat \<Rightarrow> real \<Rightarrow> scalar option list" where
  "float_cells n shift = map (\<lambda>i. Some (Num (real i + shift))) [0..<n]"

definition code_cells :: "nat \<Rightarrow> scalar option list" where
  "code_cells n = map (\<lambda>i. Some (Num (real (i mod 2)))) [0..<n]"

definition string_cells :: "nat \<Rightarrow> scalar option list" where
  "string_cells n = map (\<lambda>i. Some (Str (if even i then ''no'' else ''yes''))) [0..<n]"

definition scenario_frame :: "nat \<Rightarrow> string \<Rightarrow> scalar option list \<Rightarrow> scalar frame" where
  "scenario_frame n label_dtype labels =
     \<lparr>columns = [\<lparr>name = ''f1'', dtype = ''float64'', cells = float_cells n 0\<rparr>,
                 \<lparr>name = ''f2'', dtype = ''float64'', cells = float_cells n (1/2)\<rparr>,
                 \<lparr>name = ''label'', dtype = label_dtype, cells = labels\<rparr>],
      index = [0..<n]\<rparr>"

text \<open>Draws of the row sampler: every row in its place; every row, last first; the
  first and the last \<open>round (fraction \<sdot> n)\<close> rows.\<close>

definition draw_in_order :: "real \<Rightarrow> nat \<Rightarrow> nat list" where
  "draw_in_order fraction n = [0..<n]"

definition draw_reversed :: "real \<Rightarrow> nat \<Rightarrow> nat list" where
  "draw_reversed fraction n = rev [0..<n]"

definition draw_first :: "real \<Rightarrow> nat \<Rightarrow> nat list" where
  "draw_first fraction n = [0..<nat (round (fraction * real n))]"

definition draw_last :: "real \<Rightarrow> nat \<Rightarrow> nat list" where
  "draw_last fraction n = [n - nat (round (fraction * real n))..<n]"

definition fresh :: "scalar pystate" where
  "fresh = \<lparr>surface = [], results = Map.empty\<rparr>"

definition with_client :: "demo_obj params \<Rightarrow> demo_obj params" where
  "with_client p = p\<lparr>dask_client := Some (Client ''local'')\<rparr>"

text \<open>A four-row dataset with a numeric label, the same with a missing value in f1, and
  the parameters of a run on each: the defaults of the signature and a client object.\<close>

definition small_frame :: "scalar frame" where
  "small_frame = scenario_frame 4 ''int64'' (code_cells 4)"

definition gap_frame :: "scalar frame" where
  "gap_frame =
     \<lparr>columns = [\<lparr>name = ''f1'', dtype = ''float64'', cells = [Some (Num 1), None]\<rparr>,
                 \<lparr>name = ''label'', dtype = ''int64'', cells = [Some (Num 0), Some (Num 1)]\<rparr>],
      index = [0, 1]\<rparr>"

definition demo_params :: "scalar frame \<Rightarrow> demo_obj params" where
  "demo_params df =
     with_client (default_params (DataItem df) ''sklearn.linear_model.LogisticRegression'')"

text \<open>Collaborators whose visualizer of one kind cannot be scored, collaborators that
  cannot find the class of the descriptor, and a run that samples half of the rows.\<close>

definition broken_report_env :: "report_kind \<Rightarrow> (scalar, demo_obj) env" where
  "broken_report_env broken =
     demo_env\<lparr>viz_score := (\<lambda>kind model X y.
        if kind = broken then Inl (LibraryError ''scoring failed'') else Inr demo_viz)\<rparr>"

definition unresolvable_env :: "(scalar, demo_obj) env" where
  "unresolvable_env =
     demo_env\<lparr>gen_sklearn_model := (\<lambda>cls items. Inl (ImportError ''No module named sklearn.nowhere''))\<rparr>"





subsection \<open>Observations on a trace\<close>

text \<open>What a theorem reads off the events of a run: \<open>collect f evs\<close> gathers, in order,
  what \<open>f\<close> picks from each event.\<close>

definition collect :: "('a \<Rightarrow> 'b list) \<Rightarrow> 'a list \<Rightarrow> 'b list" where
  "collect f evs = concat (map f evs)"

text \<open>The plots logged: name and body.\<close>

fun plot_of :: "('v, 'o) event \<Rightarrow> plot list" where
  "plot_of (LogPlot key body) = [(key, body)]"
| "plot_of _ = []"

text \<open>The model, the scaler, the encoder and the dataset written to the artifact store,
  by key.\<close>

fun artifact_of :: "('v, 'o) event \<Rightarrow> string list" where
  "artifact_of (LogModel key model path file extra metrics labels) = [key]"
| "artifact_of (LogArtifact key body path file label) = [key]"
| "artifact_of (LogDataset key df fmt labels path) = [key]"
| "artifact_of _ = []"

text \<open>The calls that fit something: the label encoder, the scaler, the estimator (with
  the backend context around it) and the visualizers.\<close>

datatype fit_call = FitEncoder | FitScaler | EnterBackend | FitEstimator | FitVisualizer report_kind

fun fit_of :: "('v, 'o) event \<Rightarrow> fit_call list" where
  "fit_of (EncoderFit labels r) = [FitEncoder]"
| "fit_of (ScalerFit X r) = [FitScaler]"
| "fit_of (BackendEnter backend) = [EnterBackend]"
| "fit_of (EstimatorFit model args r) = [FitEstimator]"
| "fit_of (VizFit kind X y r) = [FitVisualizer kind]"
| "fit_of _ = []"

text \<open>The distributed fit stage: the backend context and the estimator's fit.\<close>

fun distributed_fit_of :: "('v, 'o) event \<Rightarrow> fit_call list" where
  "distributed_fit_of (BackendEnter backend) = [EnterBackend]"
| "distributed_fit_of (EstimatorFit model args r) = [FitEstimator]"
| "distributed_fit_of _ = []"

text \<open>The calls that resolve the model descriptor.\<close>

fun resolve_of :: "('v, 'o) event \<Rightarrow> string list" where
  "resolve_of (GenSklearnModel descriptor items r) = [descriptor]"
| "resolve_of (CreateClass cls r) = [cls]"
| "resolve_of _ = []"

text \<open>The exception of a visualizer call that raised.\<close>

fun report_failure :: "('v, 'o) event \<Rightarrow> py_error list" where
  "report_failure (VizInit kind model classes labels (Inl e)) = [e]"
| "report_failure (VizFit kind X y (Inl e)) = [e]"
| "report_failure (VizScore kind X y (Inl e)) = [e]"
| "report_failure _ = []"

text \<open>The result of the train/test split and the result of fitting the scaler.\<close>

fun partition_of :: "('v, 'o) event \<Rightarrow> (py_error + 'v split) list" where
  "partition_of (TrainTestSplit X y train_size seed r) = [r]"
| "partition_of _ = []"



text \<open>The data a fit is given (the estimator's keyword arguments X and y, a
  visualizer's arguments), the data a visualizer is scored on, and the held-out table.\<close>

fun fit_data_of :: "('v, 'o) event \<Rightarrow> (('v, 'o) pyval option \<times> ('v, 'o) pyval option) list" where
  "fit_data_of (EstimatorFit model args r) = [(args ''X'', args ''y'')]"
| "fit_data_of (VizFit kind X y r) = [(Some (Features X), Some (Labels y))]"
| "fit_data_of _ = []"

fun score_data_of :: "('v, 'o) event \<Rightarrow> ('v matrix \<times> 'v option list) list" where
  "score_data_of (VizScore kind X y r) = [(X, y)]"
| "score_data_of _ = []"

fun held_out_of :: "('v, 'o) event \<Rightarrow> 'v table list" where
  "held_out_of (LogDataset key df fmt labels path) = [df]"
| "held_out_of _ = []"

text \<open>The scaler's transforms: what went in and what came out.\<close>

fun transform_of :: "('v, 'o) event \<Rightarrow> ('v matrix \<times> (py_error + 'v matrix)) list" where
  "transform_of (ScalerTransform scaler X r) = [(X, r)]"
| "transform_of _ = []"

text \<open>The exception a result carries, if any.\<close>

definition raised :: "py_error + 'a \<Rightarrow> py_error option" where
  "raised r = (case r of Inl e \<Rightarrow> Some e | Inr x \<Rightarrow> None)"

text \<open>The calls of one completed pass of the report loop, and what it takes for the
  three calls into a visualizer to return.\<close>

definition report_trace ::
  "report_kind \<Rightarrow> 'o \<Rightarrow> string list \<Rightarrow> 'v matrix \<Rightarrow> 'v option list \<Rightarrow> 'v matrix \<Rightarrow>
   'v option list \<Rightarrow> 'v viz \<Rightarrow> ('v, 'o) event list" where
  "report_trace kind model classes Xtt ytr Xtet yte viz =
     [PltCla, PltClf, PltClose, VizInit kind model classes None (Inr ()),
      VizFit kind Xtt ytr (Inr ()), VizScore kind Xtet yte (Inr viz),
      LogPlot (report_name kind) [kind]]"

definition report_ok ::
  "('v, 'o) env \<Rightarrow> report_kind \<Rightarrow> 'o \<Rightarrow> string list \<Rightarrow> string list option \<Rightarrow> 'v matrix \<Rightarrow>
   'v option list \<Rightarrow> 'v matrix \<Rightarrow> 'v option list \<Rightarrow> 'v viz \<Rightarrow> bool" where
  "report_ok env kind model classes labels Xtt ytr Xtet yte viz \<longleftrightarrow>
     viz_init env kind model classes labels = Inr () \<and>
     viz_fit env kind model Xtt ytr = Inr () \<and>
     viz_score env kind model Xtet yte = Inr viz"

subsection \<open>Collaborators that return\<close>



subsection \<open>Properties of every run\<close>

text \<open>
  \<open>post m Q\<close>: whatever state the action \<open>m\<close> starts from, the exception it raises
  (if any) and the events it emits satisfy \<open>Q\<close>. \<open>quiet f\<close> is the postcondition that
  no emitted event shows under the observation \<open>f\<close>.
\<close>

definition post ::
  "('a, 'v, 'o) action \<Rightarrow> (py_error option \<Rightarrow> ('v, 'o) event list \<Rightarrow> bool) \<Rightarrow> bool" where
  "post m Q \<longleftrightarrow> (\<forall>s. Q (raised (fst (m s))) (fst (snd (m s))))"

definition quiet ::
  "(('v, 'o) event \<Rightarrow> 'b list) \<Rightarrow> py_error option \<Rightarrow> ('v, 'o) event list \<Rightarrow> bool" where
  "quiet f r evs \<longleftrightarrow> collect f evs = []"

text \<open>A visualizer call that raised is the last event and its exception is the outcome;
  \<open>aborting\<close> holds of the stages before the artifacts are logged (nothing is written
  there at all), \<open>aborted\<close> of the whole run.\<close>

definition failed_last :: "py_error option \<Rightarrow> ('v, 'o) event list \<Rightarrow> bool" where
  "failed_last r evs \<longleftrightarrow>
     (\<exists>e. r = Some e \<and> evs \<noteq> [] \<and> report_failure (last evs) = [e] \<and>
          collect report_failure (butlast evs) = [])"

definition aborting :: "py_error option \<Rightarrow> ('v, 'o) event list \<Rightarrow> bool" where
  "aborting r evs \<longleftrightarrow>
     collect artifact_of evs = [] \<and> (collect report_failure evs = [] \<or> failed_last r evs)"

definition aborted :: "py_error option \<Rightarrow> ('v, 'o) event list \<Rightarrow> bool" where
  "aborted r evs \<longleftrightarrow>
     collect report_failure evs = [] \<or> (failed_last r evs \<and> collect artifact_of evs = [])"

text \<open>The run ends in an exception before the distributed fit; if the descriptor was
  looked at, the exception is \<open>e\<close>.\<close>

definition stopped_at_resolution :: "py_error \<Rightarrow> py_error option \<Rightarrow> ('v, 'o) event list \<Rightarrow> bool" where
  "stopped_at_resolution e r evs \<longleftrightarrow>
     r \<noteq> None \<and> collect distributed_fit_of evs = [] \<and> (collect resolve_of evs = [] \<or> r = Some e)"



section \<open>Properties\<close>

subsection \<open>Running actions\<close>

lemma collect_simps [simp]:
  "collect f [] = []"
  "collect f (ev # evs) = f ev @ collect f evs"
  "collect f (xs @ ys) = collect f xs @ collect f ys"
  by (simp_all add: collect_def)

lemma collect_LogResults [simp]:
  "(\<And>kv. f (LogResults kv) = []) \<Longrightarrow> collect f (map LogResults kvs) = []"
  by (simp add: collect_def)

lemma bindA_run:
  "m s = (Inr x, evs1, s1) \<Longrightarrow> f x s1 = (r, evs2, s2) \<Longrightarrow> bindA m f s = (r, evs1 @ evs2, s2)"
  by (simp add: bindA_def)

lemma bindA_fail: "m s = (Inl e, evs, s') \<Longrightarrow> bindA m f s = (Inl e, evs, s')"
  by (simp add: bindA_def)

lemma bindA_Inr:
  "bindA m f s = (Inr y, evs, s') \<longleftrightarrow>
     (\<exists>x evs1 s1 evs2. m s = (Inr x, evs1, s1) \<and> f x s1 = (Inr y, evs2, s') \<and> evs = evs1 @ evs2)"
  by (auto simp: bindA_def split: prod.splits sum.splits)

lemma returnA_Inr: "returnA x s = (Inr y, evs, s') \<longleftrightarrow> y = x \<and> evs = [] \<and> s' = s"
  by (auto simp: returnA_def)

lemma raiseA_Inr: "raiseA e s = (Inr y, evs, s') \<longleftrightarrow> False"
  by (auto simp: raiseA_def)

lemma liftE_Inr: "liftE x s = (Inr y, evs, s') \<longleftrightarrow> x = Inr y \<and> evs = [] \<and> s' = s"
  by (auto simp: liftE_def)

lemma extern_Inr:
  "extern mk x s = (Inr y, evs, s') \<longleftrightarrow> x = Inr y \<and> evs = [mk (Inr y)] \<and> s' = s"
  by (auto simp: extern_def)

lemma emit_Inr: "emit ev s = (Inr y, evs, s') \<longleftrightarrow> evs = [ev] \<and> s' = s"
  by (auto simp: emit_def)

lemma get_results_Inr:
  "get_results s = (Inr y, evs, s') \<longleftrightarrow> y = results s \<and> evs = [] \<and> s' = s"
  by (auto simp: get_results_def)

lemma parallel_backend_Inr:
  "parallel_backend b body s = (Inr y, evs, s') \<longleftrightarrow>
     (\<exists>evs1. body s = (Inr y, evs1, s') \<and> evs = BackendEnter b # evs1 @ [BackendExit])"
  by (auto simp: parallel_backend_def split: prod.splits)

lemma getkey_Inr: "getkey k x = Inr y \<longleftrightarrow> x = Some y"
  by (auto simp: getkey_def split: option.splits)

lemmas act_Inr = bindA_Inr returnA_Inr raiseA_Inr liftE_Inr extern_Inr emit_Inr get_results_Inr
  parallel_backend_Inr getkey_Inr

lemma clear_output_run:
  "clear_output s = (Inr (), [PltCla, PltClf, PltClose], s\<lparr>surface := []\<rparr>)"
  by (simp add: clear_output_def bindA_def plt_cla_def plt_clf_def plt_close_def)

lemma draw_run: "draw k s = (Inr (), [], s\<lparr>surface := surface s @ [k]\<rparr>)"
  by (simp add: draw_def)

lemma log_plot_run: "log_plot key s = (Inr (key, surface s), [LogPlot key (surface s)], s)"
  by (simp add: log_plot_def)

subsection \<open>The stages, when they complete\<close>

lemma setup_client_Inr:
  "setup_client env f c s = (Inr client, evs, s') \<longleftrightarrow>
     s' = s \<and>
     ((\<exists>url. f = Some url \<and> url \<noteq> [] \<and> import_function_client env url = Inr client \<and>
             evs = [ImportFunction url (Inr client)]) \<or>
      ((f = None \<or> f = Some []) \<and> c = Some client \<and> evs = []))"
  by (auto simp: setup_client_def act_Inr split: option.splits list.splits)

lemma read_data_Inr:
  "read_data env p s = (Inr (df, hdr), evs, s') \<longleftrightarrow>
     (\<exists>raw. as_df env (dataset p) = Inr raw \<and> df = select_dtypes numerics raw \<and>
        \<not> isna_any df \<and> hdr = header_of df \<and> s' = s \<and>
        evs = [LoggerInfo ''Read Data'', AsDf (dataset p) (Inr raw), LoggerInfo ''Prep Data''])"
  by (auto simp: read_data_def act_Inr Let_def split: if_splits)

lemma encode_features_Inr:
  "encode_features env rng p df0 s = (Inr (encoder, X, y, classes), evs, s') \<longleftrightarrow>
     (\<exists>labels features.
        getitem (sample_reset rng (sample p) df0) (label_column p) = Inr labels \<and>
        encoder_fit env labels = Inr encoder \<and>
        drop_column (label_column p) (sample_reset rng (sample p) df0) = Inr features \<and>
        X = to_dask_array features \<and>
        encoder_transform env encoder labels = Inr y \<and>
        classes = map (str_of env) (drop_duplicates labels) \<and> s' = s \<and>
        evs = [EncoderFit labels (Inr encoder), EncoderTransform encoder labels (Inr y)])"
  by (auto simp: encode_features_def act_Inr Let_def)

lemma split_and_scale_Inr:
  "split_and_scale env p X y s =
     (Inr ((X_train, X_test, y_train, y_test), scaler, Xtt, Xtet), evs, s') \<longleftrightarrow>
     (train_test_split env X y (train_validation_size p) (random_state p) =
        Inr (X_train, X_test, y_train, y_test) \<and>
      scaler_fit env X_train = Inr scaler \<and>
      scaler_transform env scaler X_train = Inr Xtt \<and>
      scaler_transform env scaler X_test = Inr Xtet \<and> s' = s \<and>
      evs = [LoggerInfo ''Split and Train'',
             TrainTestSplit X y (train_validation_size p) (random_state p)
               (Inr (X_train, X_test, y_train, y_test)),
             ScalerFit X_train (Inr scaler),
             ScalerTransform scaler X_train (Inr Xtt),
             ScalerTransform scaler X_test (Inr Xtet)])"
  by (auto simp: split_and_scale_def act_Inr Let_def)

lemma build_and_fit_Inr:
  "build_and_fit env p Xtt y_train s = (Inr model, evs, s') \<longleftrightarrow>
     (\<exists>config fit_args meta class_name cls class_args unfitted.
        gen_sklearn_model env (model_pkg_class p) (context_parameters env) = Inr config \<and>
        FIT config = Some fit_args \<and> META config = Some meta \<and> meta ''class'' = Some class_name \<and>
        create_class env class_name = Inr cls \<and> CLASS config = Some class_args \<and>
        construct env cls class_args = Inr unfitted \<and>
        estimator_fit env unfitted (fit_args(''X'' \<mapsto> Features Xtt, ''y'' \<mapsto> Labels y_train)) =
          Inr model \<and>
        s' = s \<and>
        evs = [GenSklearnModel (model_pkg_class p) (context_parameters env) (Inr config),
               CreateClass class_name (Inr cls), Construct cls class_args (Inr unfitted),
               BackendEnter ''dask'',
               EstimatorFit unfitted (fit_args(''X'' \<mapsto> Features Xtt, ''y'' \<mapsto> Labels y_train))
                 (Inr model),
               BackendExit])"
  by (auto simp: build_and_fit_def act_Inr Let_def)

lemma log_outputs_Inr:
  "log_outputs env p model scaler encoder X_test y_test hdr extra s = (Inr u, evs, s') \<longleftrightarrow>
     (\<exists>stacked held_out.
        column_stack X_test y_test = Inr stacked \<and> DataFrame stacked hdr = Inr held_out \<and> s' = s \<and>
        evs = [LoggerInfo ''Log artifacts'', SetLabel ''class'' (model_pkg_class p),
               LogModel ''model'' model (artifact_subpath env (models_dest p)) ''model.pkl'' extra
                 (results s) [(''class'', model_pkg_class p)],
               LogArtifact ''standard_scaler'' scaler (artifact_subpath env (models_dest p))
                 ''scaler.gz'' ''standard_scaler'',
               LogArtifact ''label_encoder'' encoder (artifact_subpath env (models_dest p))
                 ''encoder.gz'' ''label_encoder'',
               LogDataset (test_set_key p) held_out (file_ext p) [(''data-type'', ''held-out'')]
                 (artifact_subpath env ''data''),
               LoggerInfo ''Done!''])"
  by (auto simp: log_outputs_def act_Inr Let_def)

subsection \<open>The evaluation stages, when they complete\<close>

lemma log_class_scores_run:
  "\<exists>kvs res. (log_class_scores n sc xs s :: (py_error + unit) \<times> ('v, 'o) event list \<times> 'v pystate) =
     (Inr (), map LogResults kvs, s\<lparr>results := res\<rparr>)"
proof (induction xs arbitrary: s)
  case Nil
  show ?case by (auto simp: returnA_def intro!: exI [of _ "[]"] exI [of _ "results s"])
next
  case (Cons x xs)
  obtain c v where x: "x = (c, v)" by (cases x)
  let ?kv = "[(n @ ''-'' @ c, map_of sc c)]"
  let ?s1 = "s\<lparr>results := results s ++ map_of ?kv\<rparr>"
  from Cons.IH [of ?s1] obtain kvs res where
    "(log_class_scores n sc xs ?s1 :: (py_error + unit) \<times> ('v, 'o) event list \<times> 'v pystate) =
       (Inr (), map LogResults kvs, ?s1\<lparr>results := res\<rparr>)"
    by blast
  then have "(log_class_scores n sc (x # xs) s :: (py_error + unit) \<times> ('v, 'o) event list \<times> 'v pystate) =
       (Inr (), map LogResults (?kv # kvs), s\<lparr>results := res\<rparr>)"
    by (simp add: x bindA_def log_results_def)
  then show ?case by blast
qed

lemma log_scores_run:
  "\<exists>kvs res. (log_scores sc s :: (py_error + unit) \<times> ('v, 'o) event list \<times> 'v pystate) =
     (Inr (), map LogResults kvs, s\<lparr>results := res\<rparr>)"
proof (induction sc arbitrary: s)
  case Nil
  show ?case by (auto simp: returnA_def intro!: exI [of _ "[]"] exI [of _ "results s"])
next
  case (Cons x xs)
  obtain n sc where x: "x = (n, sc)" by (cases x)
  obtain kvs1 res1 where 1:
    "(log_class_scores n sc sc s :: (py_error + unit) \<times> ('v, 'o) event list \<times> 'v pystate) =
       (Inr (), map LogResults kvs1, s\<lparr>results := res1\<rparr>)"
    using log_class_scores_run by blast
  from Cons.IH [of "s\<lparr>results := res1\<rparr>"] obtain kvs res where
    "(log_scores xs (s\<lparr>results := res1\<rparr>) :: (py_error + unit) \<times> ('v, 'o) event list \<times> 'v pystate) =
       (Inr (), map LogResults kvs, s\<lparr>results := res1\<rparr>\<lparr>results := res\<rparr>)"
    by blast
  with 1 have "(log_scores (x # xs) s :: (py_error + unit) \<times> ('v, 'o) event list \<times> 'v pystate) =
       (Inr (), map LogResults (kvs1 @ kvs), s\<lparr>results := res\<rparr>)"
    by (simp add: x bindA_def)
  then show ?case by blast
qed

lemma report_results_run:
  "\<exists>kvs res.
     ((if report_name report = ''ROCAUC''
       then log_results [(''micro'', roc_auc viz ''micro''), (''macro'', roc_auc viz ''macro'')]
       else if report_name report = ''ClassificationReport'' then log_scores (scores viz)
       else returnA ()) s :: (py_error + unit) \<times> ('v, 'o) event list \<times> 'v pystate) =
     (Inr (), map LogResults kvs, s\<lparr>results := res\<rparr>)"
proof (cases "report_name report = ''ROCAUC''")
  case True
  let ?kv = "[(''micro'', roc_auc viz ''micro''), (''macro'', roc_auc viz ''macro'')]"
  have "(log_results ?kv s :: (py_error + unit) \<times> ('v, 'o) event list \<times> 'v pystate) =
          (Inr (), map LogResults [?kv], s\<lparr>results := results s ++ map_of ?kv\<rparr>)"
    by (simp add: log_results_def)
  then show ?thesis unfolding if_P [OF True] by blast
next
  case False
  show ?thesis
  proof (cases "report_name report = ''ClassificationReport''")
    case True
    show ?thesis unfolding if_not_P [OF False] if_P [OF True] by (rule log_scores_run)
  next
    case no: False
    have "(returnA () s :: (py_error + unit) \<times> ('v, 'o) event list \<times> 'v pystate) =
            (Inr (), map LogResults [], s\<lparr>results := results s\<rparr>)"
      by (simp add: returnA_def)
    then show ?thesis unfolding if_not_P [OF False] if_not_P [OF no] by blast
  qed
qed

lemma make_report_run:
  assumes "report_ok env report model classes None Xtt ytr Xtet yte viz"
  shows "\<exists>kvs res.
           make_report env model classes Xtt ytr Xtet yte report s =
             (Inr (ClassRepr report, report_name report, [report]),
              report_trace report model classes Xtt ytr Xtet yte viz @ map LogResults kvs,
              s\<lparr>surface := [report], results := res\<rparr>)"
proof -
  let ?s1 = "s\<lparr>surface := [report]\<rparr>"
  obtain kvs res where r:
    "((if report_name report = ''ROCAUC''
       then log_results [(''micro'', roc_auc viz ''micro''), (''macro'', roc_auc viz ''macro'')]
       else if report_name report = ''ClassificationReport'' then log_scores (scores viz)
       else returnA ()) ?s1 :: (py_error + unit) \<times> ('a, 'b) event list \<times> 'a pystate) =
     (Inr (), map LogResults kvs, ?s1\<lparr>results := res\<rparr>)"
    using report_results_run [of report viz ?s1] by blast
  have "make_report env model classes Xtt ytr Xtet yte report s =
             (Inr (ClassRepr report, report_name report, [report]),
              report_trace report model classes Xtt ytr Xtet yte viz @ map LogResults kvs,
              s\<lparr>surface := [report], results := res\<rparr>)"
    using assms unfolding make_report_def report_ok_def report_trace_def
    by (simp add: bindA_def clear_output_run extern_def draw_run log_plot_run r returnA_def)
  then show ?thesis by blast
qed

lemma make_report_Inr_D:
  assumes "make_report env model classes Xtt ytr Xtet yte report s = (Inr entry, evs, s')"
  shows "\<exists>viz. report_ok env report model classes None Xtt ytr Xtet yte viz"
  using assms unfolding make_report_def report_ok_def by (auto simp: act_Inr)

lemma reports_loop_run:
  assumes "report_ok env ROCAUC model classes None Xtt ytr Xtet yte v1"
      and "report_ok env ClassificationReport model classes None Xtt ytr Xtet yte v2"
      and "report_ok env ConfusionMatrix model classes None Xtt ytr Xtet yte v3"
  shows "\<exists>k1 k2 k3 res.
           for_reports (make_report env model classes Xtt ytr Xtet yte)
             [ROCAUC, ClassificationReport, ConfusionMatrix] [] s =
             (Inr [(ClassRepr ROCAUC, ''ROCAUC'', [ROCAUC]),
                   (ClassRepr ClassificationReport, ''ClassificationReport'', [ClassificationReport]),
                   (ClassRepr ConfusionMatrix, ''ConfusionMatrix'', [ConfusionMatrix])],
              report_trace ROCAUC model classes Xtt ytr Xtet yte v1 @ map LogResults k1 @
              report_trace ClassificationReport model classes Xtt ytr Xtet yte v2 @ map LogResults k2 @
              report_trace ConfusionMatrix model classes Xtt ytr Xtet yte v3 @ map LogResults k3,
              s\<lparr>surface := [ConfusionMatrix], results := res\<rparr>)"
proof -
  from make_report_run [OF assms(1), of s] obtain k1 res1 where 1:
    "make_report env model classes Xtt ytr Xtet yte ROCAUC s =
       (Inr (ClassRepr ROCAUC, report_name ROCAUC, [ROCAUC]),
        report_trace ROCAUC model classes Xtt ytr Xtet yte v1 @ map LogResults k1,
        s\<lparr>surface := [ROCAUC], results := res1\<rparr>)"
    by blast
  from make_report_run [OF assms(2), of "s\<lparr>surface := [ROCAUC], results := res1\<rparr>"]
  obtain k2 res2 where 2:
    "make_report env model classes Xtt ytr Xtet yte ClassificationReport
        (s\<lparr>surface := [ROCAUC], results := res1\<rparr>) =
       (Inr (ClassRepr ClassificationReport, report_name ClassificationReport, [ClassificationReport]),
        report_trace ClassificationReport model classes Xtt ytr Xtet yte v2 @ map LogResults k2,
        s\<lparr>surface := [ClassificationReport], results := res2\<rparr>)"
    by auto
  from make_report_run [OF assms(3), of "s\<lparr>surface := [ClassificationReport], results := res2\<rparr>"]
  obtain k3 res3 where 3:
    "make_report env model classes Xtt ytr Xtet yte ConfusionMatrix
        (s\<lparr>surface := [ClassificationReport], results := res2\<rparr>) =
       (Inr (ClassRepr ConfusionMatrix, report_name ConfusionMatrix, [ConfusionMatrix]),
        report_trace ConfusionMatrix model classes Xtt ytr Xtet yte v3 @ map LogResults k3,
        s\<lparr>surface := [ConfusionMatrix], results := res3\<rparr>)"
    by auto
  show ?thesis
    apply (rule exI [of _ k1], rule exI [of _ k2], rule exI [of _ k3], rule exI [of _ res3])
    apply (simp add: 1 2 3 bindA_def returnA_def)
    done
qed

lemma reports_loop_Inr:
  assumes "for_reports (make_report env model classes Xtt ytr Xtet yte)
             [ROCAUC, ClassificationReport, ConfusionMatrix] [] s = (Inr extra, evs, s')"
  shows "\<exists>v1 v2 v3 k1 k2 k3 res.
           report_ok env ROCAUC model classes None Xtt ytr Xtet yte v1 \<and>
           report_ok env ClassificationReport model classes None Xtt ytr Xtet yte v2 \<and>
           report_ok env ConfusionMatrix model classes None Xtt ytr Xtet yte v3 \<and>
           extra = [(ClassRepr ROCAUC, ''ROCAUC'', [ROCAUC]),
                    (ClassRepr ClassificationReport, ''ClassificationReport'', [ClassificationReport]),
                    (ClassRepr ConfusionMatrix, ''ConfusionMatrix'', [ConfusionMatrix])] \<and>
           evs = report_trace ROCAUC model classes Xtt ytr Xtet yte v1 @ map LogResults k1 @
                 report_trace ClassificationReport model classes Xtt ytr Xtet yte v2 @ map LogResults k2 @
                 report_trace ConfusionMatrix model classes Xtt ytr Xtet yte v3 @ map LogResults k3 \<and>
           s' = s\<lparr>surface := [ConfusionMatrix], results := res\<rparr>"
proof -
  from assms obtain v1 v2 v3 where
    ok: "report_ok env ROCAUC model classes None Xtt ytr Xtet yte v1"
        "report_ok env ClassificationReport model classes None Xtt ytr Xtet yte v2"
        "report_ok env ConfusionMatrix model classes None Xtt ytr Xtet yte v3"
    by (auto simp: bindA_Inr dest!: make_report_Inr_D)
  from reports_loop_run [OF ok, of s] assms ok show ?thesis
    by (metis Pair_inject sum.inject(2))
qed

lemma feature_importances_run:
  assumes "header_without (label_column p) hdr = Inr labels"
      and "report_ok env FeatureImportances model classes (Some labels) Xtt ytr Xtet yte viz"
  shows "feature_importances env p model classes hdr Xtt ytr Xtet yte extra s =
           (Inr (extra @ [(PlainKey ''FeatureImportances'', ''FeatureImportances'',
                           surface s @ [FeatureImportances])]),
            [VizInit FeatureImportances model classes (Some labels) (Inr ()),
             VizFit FeatureImportances Xtt ytr (Inr ()),
             VizScore FeatureImportances Xtet yte (Inr viz),
             LogPlot ''FeatureImportances'' (surface s @ [FeatureImportances]),
             PltCla, PltClf, PltClose],
            s\<lparr>surface := []\<rparr>)"
  using assms unfolding feature_importances_def report_ok_def
  by (simp add: bindA_def liftE_def extern_def draw_run log_plot_run clear_output_run returnA_def)

lemma feature_importances_Inr:
  assumes "feature_importances env p model classes hdr Xtt ytr Xtet yte extra s = (Inr extra', evs, s')"
  shows "\<exists>labels viz.
           header_without (label_column p) hdr = Inr labels \<and>
           report_ok env FeatureImportances model classes (Some labels) Xtt ytr Xtet yte viz \<and>
           extra' = extra @ [(PlainKey ''FeatureImportances'', ''FeatureImportances'',
                             surface s @ [FeatureImportances])] \<and>
           evs = [VizInit FeatureImportances model classes (Some labels) (Inr ()),
                  VizFit FeatureImportances Xtt ytr (Inr ()),
                  VizScore FeatureImportances Xtet yte (Inr viz),
                  LogPlot ''FeatureImportances'' (surface s @ [FeatureImportances]),
                  PltCla, PltClf, PltClose] \<and>
           s' = s\<lparr>surface := []\<rparr>"
proof -
  from assms obtain labels viz where
    ok: "header_without (label_column p) hdr = Inr labels"
        "report_ok env FeatureImportances model classes (Some labels) Xtt ytr Xtet yte viz"
    unfolding feature_importances_def report_ok_def by (auto simp: act_Inr)
  from feature_importances_run [OF ok, of extra s] assms ok show ?thesis by auto
qed

subsection \<open>Postconditions of every run\<close>

lemma raised_simps [simp]: "raised (Inl e) = Some e" "raised (Inr x) = None"
  by (simp_all add: raised_def)

lemma postD: "post m Q \<Longrightarrow> m s = (r, evs, s') \<Longrightarrow> Q (raised r) evs"
  by (auto simp: post_def dest: spec [of _ s])

lemma post_bindA:
  assumes "post m Q1" and "\<And>x. post (f x) Q2"
    and "\<And>e evs. Q1 (Some e) evs \<Longrightarrow> Q (Some e) evs"
    and "\<And>evs1 r evs2. Q1 None evs1 \<Longrightarrow> Q2 r evs2 \<Longrightarrow> Q r (evs1 @ evs2)"
  shows "post (bindA m f) Q"
  unfolding post_def
proof
  fix s
  obtain r evs1 s1 where m: "m s = (r, evs1, s1)" by (cases "m s")
  show "Q (raised (fst (bindA m f s))) (fst (snd (bindA m f s)))"
  proof (cases r)
    case (Inl e)
    with m assms(1) have "Q1 (Some e) evs1" by (auto dest: postD)
    with assms(3) m Inl show ?thesis by (simp add: bindA_def)
  next
    case (Inr x)
    obtain r2 evs2 s2 where f: "f x s1 = (r2, evs2, s2)" by (cases "f x s1")
    from m Inr assms(1) have "Q1 None evs1" by (auto dest: postD)
    moreover from f assms(2) have "Q2 (raised r2) evs2" by (auto dest: postD)
    ultimately have "Q (raised r2) (evs1 @ evs2)" by (rule assms(4))
    with m Inr f show ?thesis by (simp add: bindA_def)
  qed
qed

lemma post_returnA: "Q None [] \<Longrightarrow> post (returnA x) Q"
  by (simp add: post_def returnA_def)

lemma post_raiseA: "Q (Some e) [] \<Longrightarrow> post (raiseA e) Q"
  by (simp add: post_def raiseA_def)

lemma post_liftE: "Q (raised r) [] \<Longrightarrow> post (liftE r) Q"
  by (simp add: post_def liftE_def)

lemma post_extern: "Q (raised r) [mk r] \<Longrightarrow> post (extern mk r) Q"
  by (simp add: post_def extern_def)

lemma post_emit: "Q None [ev] \<Longrightarrow> post (emit ev) Q"
  by (simp add: post_def emit_def)

lemma post_clear_output: "Q None [PltCla, PltClf, PltClose] \<Longrightarrow> post clear_output Q"
  by (simp add: post_def clear_output_run)

lemma post_draw: "Q None [] \<Longrightarrow> post (draw k) Q"
  by (simp add: post_def draw_def)

lemma post_log_plot: "(\<And>body. Q None [LogPlot key body]) \<Longrightarrow> post (log_plot key) Q"
  by (simp add: post_def log_plot_def)

lemma post_log_results: "Q None [LogResults kv] \<Longrightarrow> post (log_results kv) Q"
  by (simp add: post_def log_results_def)

lemma post_get_results: "Q None [] \<Longrightarrow> post get_results Q"
  by (simp add: post_def get_results_def)

lemma post_log_scores:
  assumes q: "\<And>kvs. Q None (map LogResults kvs)"
  shows "post (log_scores sc :: (unit, 'v, 'o) action) Q"
  unfolding post_def
proof
  fix s :: "'v pystate"
  from log_scores_run [of sc s, where ?'o = 'o] obtain kvs res where
    "(log_scores sc s :: (py_error + unit) \<times> ('v, 'o) event list \<times> 'v pystate) =
       (Inr (), map LogResults kvs, s\<lparr>results := res\<rparr>)" by blast
  with q show "Q (raised (fst (log_scores sc s :: (py_error + unit) \<times> ('v, 'o) event list \<times> 'v pystate)))
     (fst (snd (log_scores sc s)))" by simp
qed

lemma post_parallel_backend:
  assumes "post body Q1"
    and q: "\<And>r evs. Q1 r evs \<Longrightarrow> Q r (BackendEnter b # evs @ [BackendExit])"
  shows "post (parallel_backend b body) Q"
  unfolding post_def
proof
  fix s
  from assms(1) have "Q1 (raised (fst (body s))) (fst (snd (body s)))" by (simp add: post_def)
  then have "Q (raised (fst (body s))) (BackendEnter b # fst (snd (body s)) @ [BackendExit])"
    by (rule q)
  then show "Q (raised (fst (parallel_backend b body s))) (fst (snd (parallel_backend b body s)))"
    by (cases "body s") (simp add: parallel_backend_def)
qed

lemma post_case_prod: "(\<And>a b. post (f a b) Q) \<Longrightarrow> post (case_prod f x) Q"
  by (cases x) simp

lemma post_if: "(c \<Longrightarrow> post a Q) \<Longrightarrow> (\<not> c \<Longrightarrow> post b Q) \<Longrightarrow> post (if c then a else b) Q"
  by simp

lemma post_weaken: "post m Q1 \<Longrightarrow> (\<And>r evs. Q1 r evs \<Longrightarrow> Q r evs) \<Longrightarrow> post m Q"
  by (simp add: post_def)

lemma post_conj: "post m Q1 \<Longrightarrow> post m Q2 \<Longrightarrow> post m (\<lambda>r evs. Q1 r evs \<and> Q2 r evs)"
  by (simp add: post_def)

lemmas post_prims = post_returnA post_raiseA post_liftE post_extern post_emit post_clear_output
  post_draw post_log_plot post_log_results post_get_results post_log_scores post_case_prod post_if

subsection \<open>Stages that show nothing under an observation\<close>

lemma quiet_bindA:
  "post m (quiet f) \<Longrightarrow> (\<And>x. post (g x) (quiet f)) \<Longrightarrow> post (bindA m g) (quiet f)"
  by (rule post_bindA [where ?Q1.0 = "quiet f" and ?Q2.0 = "quiet f"]) (auto simp: quiet_def)

lemma quiet_parallel_backend:
  "post body (quiet f) \<Longrightarrow> f (BackendEnter b) = [] \<Longrightarrow> f BackendExit = [] \<Longrightarrow>
   post (parallel_backend b body) (quiet f)"
  by (erule post_parallel_backend) (auto simp: quiet_def)

lemma quiet_setup_client:
  "(\<And>url r. f (ImportFunction url r) = []) \<Longrightarrow> post (setup_client env df dc) (quiet f)"
  unfolding setup_client_def
  by (auto simp: quiet_def split: option.splits list.splits intro!: post_prims)

lemma quiet_read_data:
  "(\<And>m. f (LoggerInfo m) = []) \<Longrightarrow> (\<And>d r. f (AsDf d r) = []) \<Longrightarrow>
   post (read_data env p) (quiet f)"
  unfolding read_data_def Let_def
  by (intro quiet_bindA post_prims) (simp_all add: quiet_def)

lemma quiet_encode_features:
  "(\<And>l r. f (EncoderFit l r) = []) \<Longrightarrow> (\<And>e l r. f (EncoderTransform e l r) = []) \<Longrightarrow>
   post (encode_features env rng p df) (quiet f)"
  unfolding encode_features_def Let_def
  by (intro quiet_bindA post_prims) (simp_all add: quiet_def)

lemma quiet_split_and_scale:
  "(\<And>m. f (LoggerInfo m) = []) \<Longrightarrow> (\<And>X y t sd r. f (TrainTestSplit X y t sd r) = []) \<Longrightarrow>
   (\<And>X r. f (ScalerFit X r) = []) \<Longrightarrow> (\<And>sc X r. f (ScalerTransform sc X r) = []) \<Longrightarrow>
   post (split_and_scale env p X y) (quiet f)"
  unfolding split_and_scale_def Let_def
  by (intro quiet_bindA post_prims) (simp_all add: quiet_def)

lemma quiet_build_and_fit:
  "(\<And>d i r. f (GenSklearnModel d i r) = []) \<Longrightarrow> (\<And>c r. f (CreateClass c r) = []) \<Longrightarrow>
   (\<And>c a r. f (Construct c a r) = []) \<Longrightarrow> (\<And>b. f (BackendEnter b) = []) \<Longrightarrow>
   (\<And>m a r. f (EstimatorFit m a r) = []) \<Longrightarrow> f BackendExit = [] \<Longrightarrow>
   post (build_and_fit env p X y) (quiet f)"
  unfolding build_and_fit_def Let_def
  by (intro quiet_bindA post_prims quiet_parallel_backend) (simp_all add: quiet_def)




lemma quiet_log_outputs:
  "(\<And>m. f (LoggerInfo m) = []) \<Longrightarrow> (\<And>k v. f (SetLabel k v) = []) \<Longrightarrow>
   (\<And>k m pa fi ex me la. f (LogModel k m pa fi ex me la) = []) \<Longrightarrow>
   (\<And>k b pa fi la. f (LogArtifact k b pa fi la) = []) \<Longrightarrow>
   (\<And>k d fm la pa. f (LogDataset k d fm la pa) = []) \<Longrightarrow>
   post (log_outputs env p model scaler encoder X y hdr extra) (quiet f)"
  unfolding log_outputs_def Let_def
  by (intro quiet_bindA post_prims) (simp_all add: quiet_def)

subsection \<open>The numeric restriction\<close>




subsection \<open>Evaluating the stand-in run\<close>

lemmas act_defs = returnA_def raiseA_def bindA_def liftE_def extern_def emit_def plt_cla_def
  plt_clf_def plt_close_def clear_output_def draw_def log_plot_def log_results_def get_results_def
  parallel_backend_def

lemmas stage_defs = setup_client_def read_data_def encode_features_def split_and_scale_def
  build_and_fit_def make_report_def feature_importances_def log_outputs_def train_model_def

lemmas frame_defs = select_dtypes_def numerics_def isna_any_def header_of_def take_rows_def
  reset_index_def sample_reset_def getitem_def drop_column_def row_at_def to_dask_array_def
  header_without_def column_stack_def DataFrame_def nrows_def getkey_def

lemmas demo_defs = demo_env_def demo_split_def halve_def demo_viz_def demo_str_def float_cells_def
  code_cells_def string_cells_def scenario_frame_def draw_in_order_def draw_reversed_def
  draw_first_def draw_last_def fresh_def with_client_def default_params_def demo_params_def
  small_frame_def gap_frame_def

lemma small_run_completes:
  "fst (train_model demo_env draw_in_order (demo_params small_frame) fresh) = Inr ()"
  by (simp add: stage_defs act_defs frame_defs demo_defs Let_def upt_rec)

lemma run_split: "m s = (fst (m s), fst (snd (m s)), snd (snd (m s)))"
  by simp

subsection \<open>The drawing surface\<close>

text \<open>
  Claim C6 asks that each of the four reports is generated on a cleared surface. The
  loop of lines 124--131 clears the figure before each of its three reports, but
  nothing clears it between the loop and the feature importances of lines 166--174:
  in every run that completes, the three plots of the loop hold their own drawing only,
  and the FeatureImportances plot holds the confusion matrix with the feature
  importances drawn over it.
\<close>

theorem feature_importances_drawn_over_confusion_matrix:
  assumes "train_model env rng p s = (Inr u, evs, s')"
  shows "collect plot_of evs =
           [(''ROCAUC'', [ROCAUC]), (''ClassificationReport'', [ClassificationReport]),
            (''ConfusionMatrix'', [ConfusionMatrix]),
            (''FeatureImportances'', [ConfusionMatrix, FeatureImportances])]"
  using assms unfolding train_model_def
  by (auto simp: bindA_Inr setup_client_Inr read_data_Inr encode_features_Inr split_and_scale_Inr
        build_and_fit_Inr emit_Inr log_outputs_Inr report_trace_def
      simp del: for_reports.simps
      dest!: reports_loop_Inr feature_importances_Inr)

theorem feature_importances_drawn_over_confusion_matrix_witness:
  "fst (train_model demo_env draw_in_order (demo_params small_frame) fresh) = Inr () \<and>
   collect plot_of (fst (snd (train_model demo_env draw_in_order (demo_params small_frame) fresh))) =
     [(''ROCAUC'', [ROCAUC]), (''ClassificationReport'', [ClassificationReport]),
      (''ConfusionMatrix'', [ConfusionMatrix]),
      (''FeatureImportances'', [ConfusionMatrix, FeatureImportances])]"
proof -
  let ?run = "train_model demo_env draw_in_order (demo_params small_frame) fresh"
  have "?run = (Inr (), fst (snd ?run), snd (snd ?run))"
    using small_run_completes run_split [of "train_model demo_env draw_in_order (demo_params small_frame)" fresh]
    by simp
  from feature_importances_drawn_over_confusion_matrix [OF this] small_run_completes
  show ?thesis by simp
qed

subsection \<open>What is fitted and what is held out\<close>

text \<open>
  Claim C9. In every run that completes, the estimator and the visualizers are fitted
  on the scaler's transform of the train features and the visualizers are scored on the
  scaler's transform of the test features, while the rows of the held-out dataset are
  the test features as the splitter returned them, before any transform, each with its
  label appended.
\<close>

theorem held_out_is_unscaled:
  assumes "train_model env rng p s = (Inr u, evs, s')"
  shows "\<exists>X_train X_test y_train y_test Xtt Xtet.
           collect partition_of evs = [Inr (X_train, X_test, y_train, y_test)] \<and>
           collect transform_of evs = [(X_train, Inr Xtt), (X_test, Inr Xtet)] \<and>
           collect fit_data_of evs =
             [(Some (Features Xtt), Some (Labels y_train)), (Some (Features Xtt), Some (Labels y_train)),
              (Some (Features Xtt), Some (Labels y_train)), (Some (Features Xtt), Some (Labels y_train)),
              (Some (Features Xtt), Some (Labels y_train))] \<and>
           collect score_data_of evs = [(Xtet, y_test), (Xtet, y_test), (Xtet, y_test), (Xtet, y_test)] \<and>
           map table_rows (collect held_out_of evs) = [map (\<lambda>(r, l). r @ [l]) (zip X_test y_test)] \<and>
           length X_test = length y_test"
  using assms unfolding train_model_def
  by (auto simp: bindA_Inr setup_client_Inr read_data_Inr encode_features_Inr split_and_scale_Inr
        build_and_fit_Inr emit_Inr log_outputs_Inr report_trace_def column_stack_def DataFrame_def
      simp del: for_reports.simps split: if_splits
      dest!: reports_loop_Inr feature_importances_Inr)


theorem held_out_is_unscaled_witness:
  "fst (train_model demo_env draw_in_order (demo_params small_frame) fresh) = Inr () \<and>
   (\<exists>X_train X_test y_train y_test Xtt Xtet.
      collect partition_of (fst (snd (train_model demo_env draw_in_order (demo_params small_frame) fresh))) =
        [Inr (X_train, X_test, y_train, y_test)] \<and>
      X_test = [[Some (Num 3), Some (Num (7 / 2))]] \<and>
      collect score_data_of (fst (snd (train_model demo_env draw_in_order (demo_params small_frame) fresh))) =
        [(Xtet, y_test), (Xtet, y_test), (Xtet, y_test), (Xtet, y_test)] \<and>
      Xtet = [[Some (Num (3 / 2)), Some (Num (7 / 4))]] \<and>
      map table_rows
        (collect held_out_of (fst (snd (train_model demo_env draw_in_order (demo_params small_frame) fresh)))) =
        [map (\<lambda>(r, l). r @ [l]) (zip X_test y_test)]) \<and>
   map table_rows
     (collect held_out_of (fst (snd (train_model demo_env draw_in_order (demo_params small_frame) fresh)))) =
     [[[Some (Num 3), Some (Num (7 / 2)), Some (Num 1)]]]"
proof -
  let ?run = "train_model demo_env draw_in_order (demo_params small_frame) fresh"
  have run: "?run = (Inr (), fst (snd ?run), snd (snd ?run))"
    using small_run_completes run_split [of "train_model demo_env draw_in_order (demo_params small_frame)" fresh]
    by simp
  have part: "collect partition_of (fst (snd ?run)) =
      [Inr ([[Some (Num 0), Some (Num (1 / 2))], [Some (Num 1), Some (Num (3 / 2))],
             [Some (Num 2), Some (Num (5 / 2))]],
            [[Some (Num 3), Some (Num (7 / 2))]],
            [Some (Num 0), Some (Num 1), Some (Num 0)], [Some (Num 1)])]"
    by (simp add: stage_defs act_defs frame_defs demo_defs Let_def upt_rec)
  have score: "collect score_data_of (fst (snd ?run)) =
      [([[Some (Num (3 / 2)), Some (Num (7 / 4))]], [Some (Num 1)]),
       ([[Some (Num (3 / 2)), Some (Num (7 / 4))]], [Some (Num 1)]),
       ([[Some (Num (3 / 2)), Some (Num (7 / 4))]], [Some (Num 1)]),
       ([[Some (Num (3 / 2)), Some (Num (7 / 4))]], [Some (Num 1)])]"
    by (simp add: stage_defs act_defs frame_defs demo_defs Let_def upt_rec)
  from held_out_is_unscaled [OF run] part score small_run_completes
  show ?thesis by auto
qed

subsection \<open>The dask client\<close>

text \<open>
  Claim C8. With no dask function reference (None, or the empty string, which Python
  takes for false) and no client object, the function raises ValueError at once: no
  call has been made, the dataset has not been read and the state is untouched. With
  a reference, the client is the one of the imported function, whether a client object
  is passed or not.
\<close>

theorem client_required_reference_first:
  "((dask_function p = None \<or> dask_function p = Some []) \<and> dask_client p = None \<longrightarrow>
      train_model env rng p s = (Inl (ValueError ''dask client was not provided''), [], s)) \<and>
   (dask_function p = Some url \<and> url \<noteq> [] \<longrightarrow>
      setup_client env (dask_function p) (dask_client p) s =
        (import_function_client env url, [ImportFunction url (import_function_client env url)], s) \<and>
      train_model env rng p s = train_model env rng (p\<lparr>dask_client := None\<rparr>) s)"
proof (intro conjI impI)
  assume "(dask_function p = None \<or> dask_function p = Some []) \<and> dask_client p = None"
  then have "setup_client env (dask_function p) (dask_client p) s =
               (Inl (ValueError ''dask client was not provided''), [], s)"
    by (auto simp: setup_client_def raiseA_def)
  then show "train_model env rng p s = (Inl (ValueError ''dask client was not provided''), [], s)"
    unfolding train_model_def by (rule bindA_fail)
next
  assume a: "dask_function p = Some url \<and> url \<noteq> []"
  then show "setup_client env (dask_function p) (dask_client p) s =
        (import_function_client env url, [ImportFunction url (import_function_client env url)], s)"
    by (cases url) (simp_all add: setup_client_def extern_def)
  have "setup_client env (dask_function p) (dask_client p) = setup_client env (dask_function p) None"
    using a by (cases url) (simp_all add: setup_client_def)
  then show "train_model env rng p s = train_model env rng (p\<lparr>dask_client := None\<rparr>) s"
    by (simp add: stage_defs)
qed

theorem client_required_reference_first_witness:
  "train_model demo_env draw_in_order
     (default_params (DataItem small_frame) ''sklearn.linear_model.LogisticRegression'') fresh =
     (Inl (ValueError ''dask client was not provided''), [], fresh) \<and>
   setup_client demo_env (Some ''db://dask'') (Some (Client ''local'')) fresh =
     (Inr (Client ''db://dask''), [ImportFunction ''db://dask'' (Inr (Client ''db://dask''))], fresh)"
  using client_required_reference_first
      [where p = "default_params (DataItem small_frame) ''sklearn.linear_model.LogisticRegression''"
         and env = demo_env and rng = draw_in_order and s = fresh]
    client_required_reference_first
      [where p = "(demo_params small_frame)\<lparr>dask_function := Some ''db://dask''\<rparr>"
         and url = "''db://dask''" and env = demo_env and s = fresh]
  by (simp add: default_params_def demo_params_def with_client_def demo_env_def)

subsection \<open>Missing values\<close>

text \<open>
  Claim C2. When the frame that was read has a missing value in one of its numeric
  columns, the function raises the exception of line 83 (the spec's
  \<^verbatim>\<open>InvalidDataset\<close>). All it has done by then is to set up the client, log two
  messages and read the frame: nothing has been fitted, no plot and no artifact has
  been written, and the state is as it was.
\<close>

theorem missing_values_rejected:
  assumes "setup_client env (dask_function p) (dask_client p) s = (Inr client, evs0, s0)"
      and "as_df env (dataset p) = Inr df"
      and "isna_any (select_dtypes numerics df)"
  shows "\<exists>evs. train_model env rng p s = (Inl (PyException ''NAs valus found''), evs, s) \<and>
           evs = evs0 @ [LoggerInfo ''Read Data'', AsDf (dataset p) (Inr df), LoggerInfo ''Prep Data''] \<and>
           collect fit_of evs = [] \<and> collect plot_of evs = [] \<and> collect artifact_of evs = []"
proof -
  from assms(1) have s0: "s0 = s" and evs0:
    "collect fit_of evs0 = []" "collect plot_of evs0 = []" "collect artifact_of evs0 = []"
    by (auto simp: setup_client_Inr)
  have "read_data env p s =
          (Inl (PyException ''NAs valus found''),
           [LoggerInfo ''Read Data'', AsDf (dataset p) (Inr df), LoggerInfo ''Prep Data''], s)"
    using assms(2,3) by (simp add: read_data_def bindA_def emit_def extern_def raiseA_def)
  then have rd: "bindA (read_data env p) f s =
          (Inl (PyException ''NAs valus found''),
           [LoggerInfo ''Read Data'', AsDf (dataset p) (Inr df), LoggerInfo ''Prep Data''], s)" for f
    by (rule bindA_fail)
  have "train_model env rng p s =
       (Inl (PyException ''NAs valus found''),
        evs0 @ [LoggerInfo ''Read Data'', AsDf (dataset p) (Inr df), LoggerInfo ''Prep Data''], s)"
    unfolding train_model_def
    by (rule bindA_run [where m = "setup_client env (dask_function p) (dask_client p)" and s = s,
          OF assms(1) [unfolded s0]]) (rule rd)
  with evs0 show ?thesis by simp
qed

theorem missing_values_rejected_witness:
  "isna_any (select_dtypes numerics gap_frame) \<and>
   train_model demo_env draw_in_order (demo_params gap_frame) fresh =
     (Inl (PyException ''NAs valus found''),
      [LoggerInfo ''Read Data'', AsDf (DataItem gap_frame) (Inr gap_frame), LoggerInfo ''Prep Data''],
      fresh)"
proof -
  have 1: "setup_client demo_env (dask_function (demo_params gap_frame))
             (dask_client (demo_params gap_frame)) fresh = (Inr (Client ''local''), [], fresh)"
    by (simp add: setup_client_def returnA_def demo_params_def with_client_def default_params_def)
  have 2: "as_df demo_env (dataset (demo_params gap_frame)) = Inr gap_frame"
    by (simp add: demo_env_def demo_params_def with_client_def default_params_def)
  have 3: "isna_any (select_dtypes numerics gap_frame)"
    by (simp add: isna_any_def select_dtypes_def numerics_def gap_frame_def)
  from missing_values_rejected [OF 1 2 3, of draw_in_order] 3 show ?thesis
    by (simp add: demo_params_def with_client_def default_params_def)
qed


subsection \<open>A report that fails\<close>

lemma aborting_quiet:
  "post m (quiet artifact_of) \<Longrightarrow> post m (quiet report_failure) \<Longrightarrow> post m aborting"
  by (simp add: post_def quiet_def aborting_def)

lemma failed_last_append:
  "collect report_failure evs1 = [] \<Longrightarrow> failed_last r evs2 \<Longrightarrow> failed_last r (evs1 @ evs2)"
  by (auto simp: failed_last_def butlast_append)

lemma not_failed_last_None [simp]: "\<not> failed_last None evs"
  by (simp add: failed_last_def)

lemma aborting_append:
  "aborting None evs1 \<Longrightarrow> aborting r evs2 \<Longrightarrow> aborting r (evs1 @ evs2)"
  by (auto simp: aborting_def failed_last_append)

lemma aborted_append:
  "aborting None evs1 \<Longrightarrow> aborted r evs2 \<Longrightarrow> aborted r (evs1 @ evs2)"
  by (auto simp: aborting_def aborted_def failed_last_append)

lemma aborting_aborted: "aborting r evs \<Longrightarrow> aborted r evs"
  by (auto simp: aborting_def aborted_def)

lemma aborting_bindA:
  "post m aborting \<Longrightarrow> (\<And>x. post (f x) aborting) \<Longrightarrow> post (bindA m f) aborting"
  by (rule post_bindA [where ?Q1.0 = aborting and ?Q2.0 = aborting]) (auto intro: aborting_append)

lemma aborted_bindA:
  "post m aborting \<Longrightarrow> (\<And>x. post (f x) aborted) \<Longrightarrow> post (bindA m f) aborted"
  by (rule post_bindA [where ?Q1.0 = aborting and ?Q2.0 = aborted])
     (auto intro: aborted_append aborting_aborted)

lemma aborting_VizInit: "aborting (raised r) [VizInit kind model classes labels r]"
  by (cases r) (simp_all add: aborting_def failed_last_def)

lemma aborting_VizFit: "aborting (raised r) [VizFit kind X y r]"
  by (cases r) (simp_all add: aborting_def failed_last_def)

lemma aborting_VizScore: "aborting (raised r) [VizScore kind X y r]"
  by (cases r) (simp_all add: aborting_def failed_last_def)

lemmas aborting_viz = aborting_VizInit aborting_VizFit aborting_VizScore

lemma aborting_make_report:
  "post (make_report env model classes Xtt ytr Xtet yte report) aborting"
  unfolding make_report_def
  by (intro aborting_bindA post_prims aborting_viz) (simp_all add: aborting_def)

lemma aborting_for_reports:
  "(\<And>k. post (body k) aborting) \<Longrightarrow> post (for_reports body kinds extra) aborting"
  by (induction kinds arbitrary: extra) (auto intro!: aborting_bindA post_prims simp: aborting_def)

lemma aborting_feature_importances:
  "post (feature_importances env p model classes hdr Xtt ytr Xtet yte extra) aborting"
  unfolding feature_importances_def
  by (intro aborting_bindA post_prims aborting_viz) (simp_all add: aborting_def)

lemma aborted_log_outputs:
  "post (log_outputs env p model scaler encoder X y hdr extra) aborted"
  by (rule post_weaken [OF quiet_log_outputs [where f = report_failure]])
     (simp_all add: quiet_def aborted_def)

lemma aborted_train_model: "post (train_model env rng p) aborted"
  unfolding train_model_def case_prod_beta
  by (intro aborted_bindA aborted_log_outputs aborting_feature_importances
        aborting_for_reports aborting_make_report
        aborting_quiet quiet_setup_client quiet_read_data quiet_encode_features
        quiet_split_and_scale quiet_build_and_fit post_emit)
     (simp_all add: aborting_def)

text \<open>
  Claim C4 asks that a report that fails does not keep the others from completing. The
  function has no handler around a report: an exception of a visualizer's constructor,
  \<^verbatim>\<open>fit\<close> or \<^verbatim>\<open>score\<close> ends the run. In every run, either no visualizer call
  raised, or the call that raised is the last event of the run, its exception is the
  outcome of the run, and neither the model, the scaler, the encoder nor the held-out
  dataset has been written.
\<close>

theorem report_failure_ends_run:
  assumes "train_model env rng p s = (r, evs, s')"
  shows "collect report_failure evs = [] \<or>
         (\<exists>e. r = Inl e \<and> evs \<noteq> [] \<and> report_failure (last evs) = [e] \<and>
              collect report_failure (butlast evs) = [] \<and> collect artifact_of evs = [])"
proof -
  from postD [OF aborted_train_model assms] have "aborted (raised r) evs" .
  then show ?thesis
    by (cases r) (auto simp: aborted_def failed_last_def)
qed

lemma broken_run:
  "fst (train_model (broken_report_env ClassificationReport) draw_in_order (demo_params small_frame)
      fresh) = Inl (LibraryError ''scoring failed'')"
  "collect plot_of (fst (snd (train_model (broken_report_env ClassificationReport) draw_in_order
      (demo_params small_frame) fresh))) = [(''ROCAUC'', [ROCAUC])]"
  "collect report_failure (fst (snd (train_model (broken_report_env ClassificationReport) draw_in_order
      (demo_params small_frame) fresh))) = [LibraryError ''scoring failed'']"
  by (simp_all add: stage_defs act_defs frame_defs demo_defs broken_report_env_def Let_def upt_rec)

theorem report_failure_ends_run_witness:
  "fst (train_model (broken_report_env ClassificationReport) draw_in_order (demo_params small_frame)
      fresh) = Inl (LibraryError ''scoring failed'') \<and>
   collect report_failure (fst (snd (train_model (broken_report_env ClassificationReport)
      draw_in_order (demo_params small_frame) fresh))) = [LibraryError ''scoring failed''] \<and>
   collect artifact_of (fst (snd (train_model (broken_report_env ClassificationReport)
      draw_in_order (demo_params small_frame) fresh))) = []"
  using report_failure_ends_run
      [OF run_split [of "train_model (broken_report_env ClassificationReport) draw_in_order
            (demo_params small_frame)" fresh]]
    broken_run
  by auto

text \<open>With collaborators whose classification report cannot be scored and whose other
  reports can, the run ends in that exception after the ROC/AUC plot: the confusion
  matrix and the feature importances are never generated.\<close>

theorem report_failure_stops_other_reports:
  "fst (train_model (broken_report_env ClassificationReport) draw_in_order (demo_params small_frame)
      fresh) = Inl (LibraryError ''scoring failed'') \<and>
   collect plot_of (fst (snd (train_model (broken_report_env ClassificationReport) draw_in_order
      (demo_params small_frame) fresh))) = [(''ROCAUC'', [ROCAUC])] \<and>
   collect plot_of (fst (snd (train_model demo_env draw_in_order (demo_params small_frame) fresh))) =
     [(''ROCAUC'', [ROCAUC]), (''ClassificationReport'', [ClassificationReport]),
      (''ConfusionMatrix'', [ConfusionMatrix]),
      (''FeatureImportances'', [ConfusionMatrix, FeatureImportances])]"
  using broken_run
  by (simp add: stage_defs act_defs frame_defs demo_defs Let_def upt_rec)


subsection \<open>A descriptor that cannot be resolved\<close>

lemma both_quiet:
  "post m (quiet f) \<Longrightarrow> post m (quiet g) \<Longrightarrow>
   post m (\<lambda>r evs. collect f evs = [] \<and> collect g evs = [])"
  by (simp add: post_def quiet_def)

lemma stopped_bindA:
  "post m (\<lambda>r evs. collect distributed_fit_of evs = [] \<and> collect resolve_of evs = []) \<Longrightarrow>
   (\<And>x. post (f x) (stopped_at_resolution e)) \<Longrightarrow>
   post (bindA m f) (stopped_at_resolution e)"
  by (rule post_bindA
        [where ?Q1.0 = "\<lambda>r evs. collect distributed_fit_of evs = [] \<and> collect resolve_of evs = []"
           and ?Q2.0 = "stopped_at_resolution e"])
     (auto simp: stopped_at_resolution_def)

lemma build_and_fit_unresolvable:
  assumes "gen_sklearn_model env (model_pkg_class p) (context_parameters env) = Inl e \<or>
           (\<exists>config fit_args meta cls.
              gen_sklearn_model env (model_pkg_class p) (context_parameters env) = Inr config \<and>
              FIT config = Some fit_args \<and> META config = Some meta \<and> meta ''class'' = Some cls \<and>
              create_class env cls = Inl e)"
  shows "\<exists>evs. build_and_fit env p X y s = (Inl e, evs, s) \<and>
           collect distributed_fit_of evs = [] \<and> collect resolve_of evs \<noteq> []"
  using assms unfolding build_and_fit_def
  by (auto simp: bindA_def extern_def liftE_def getkey_def Let_def)

lemma stopped_build_and_fit:
  assumes "gen_sklearn_model env (model_pkg_class p) (context_parameters env) = Inl e \<or>
           (\<exists>config fit_args meta cls.
              gen_sklearn_model env (model_pkg_class p) (context_parameters env) = Inr config \<and>
              FIT config = Some fit_args \<and> META config = Some meta \<and> meta ''class'' = Some cls \<and>
              create_class env cls = Inl e)"
  shows "post (bindA (build_and_fit env p X y) rest) (stopped_at_resolution e)"
  unfolding post_def
proof
  fix s
  from build_and_fit_unresolvable [OF assms, of X y s] obtain evs where
    b: "build_and_fit env p X y s = (Inl e, evs, s)" "collect distributed_fit_of evs = []"
    by blast
  from b show "stopped_at_resolution e (raised (fst (bindA (build_and_fit env p X y) rest s)))
          (fst (snd (bindA (build_and_fit env p X y) rest s)))"
    by (simp add: stopped_at_resolution_def bindA_def)
qed

text \<open>
  Claim C7. The descriptor names a class that cannot be resolved when
  \<^verbatim>\<open>gen_sklearn_model\<close> raises on it (the class-name form: the module or the class is
  not found), or when it returns a configuration whose class \<^verbatim>\<open>create_class\<close> cannot
  find (the json form). Then every run ends in an exception, the backend context is
  never entered and the estimator is never fitted, and in a run that got as far as the
  descriptor the exception is the resolver's (the spec's \<^verbatim>\<open>UnresolvableClass\<close>).
\<close>

theorem unresolvable_class_stops_before_fit:
  assumes "gen_sklearn_model env (model_pkg_class p) (context_parameters env) = Inl e \<or>
           (\<exists>config fit_args meta cls.
              gen_sklearn_model env (model_pkg_class p) (context_parameters env) = Inr config \<and>
              FIT config = Some fit_args \<and> META config = Some meta \<and> meta ''class'' = Some cls \<and>
              create_class env cls = Inl e)"
  shows "\<exists>e' evs s'. train_model env rng p s = (Inl e', evs, s') \<and>
           collect distributed_fit_of evs = [] \<and> (collect resolve_of evs = [] \<or> e' = e)"
proof -
  have "post (train_model env rng p) (stopped_at_resolution e)"
    unfolding train_model_def case_prod_beta
    by (intro stopped_bindA stopped_build_and_fit [OF assms] both_quiet quiet_setup_client
          quiet_read_data quiet_encode_features quiet_split_and_scale) simp_all
  from postD [OF this run_split [of "train_model env rng p" s]]
  have "stopped_at_resolution e (raised (fst (train_model env rng p s)))
          (fst (snd (train_model env rng p s)))" .
  then show ?thesis
    by (cases "train_model env rng p s"; cases "fst (train_model env rng p s)")
       (auto simp: stopped_at_resolution_def)
qed

lemma unresolvable_run:
  "fst (train_model unresolvable_env draw_in_order (demo_params small_frame) fresh) =
     Inl (ImportError ''No module named sklearn.nowhere'')"
  "collect resolve_of (fst (snd (train_model unresolvable_env draw_in_order (demo_params small_frame)
     fresh))) = [''sklearn.linear_model.LogisticRegression'']"
  by (simp_all add: stage_defs act_defs frame_defs demo_defs unresolvable_env_def Let_def upt_rec)

theorem unresolvable_class_stops_before_fit_witness:
  "gen_sklearn_model unresolvable_env (model_pkg_class (demo_params small_frame))
     (context_parameters unresolvable_env) = Inl (ImportError ''No module named sklearn.nowhere'') \<and>
   fst (train_model unresolvable_env draw_in_order (demo_params small_frame) fresh) =
     Inl (ImportError ''No module named sklearn.nowhere'') \<and>
   collect distributed_fit_of
     (fst (snd (train_model unresolvable_env draw_in_order (demo_params small_frame) fresh))) = []"
proof -
  have h: "gen_sklearn_model unresolvable_env (model_pkg_class (demo_params small_frame))
     (context_parameters unresolvable_env) = Inl (ImportError ''No module named sklearn.nowhere'')"
    by (simp add: unresolvable_env_def)
  from unresolvable_class_stops_before_fit
         [where env = unresolvable_env and p = "demo_params small_frame" and rng = draw_in_order
            and s = fresh and e = "ImportError ''No module named sklearn.nowhere''", OF disjI1 [OF h]]
    unresolvable_run h
  show ?thesis by auto
qed


subsection \<open>Repeating a run\<close>














subsection \<open>Sampling every row\<close>










subsection \<open>The end-to-end scenario\<close>










end
